theory Spec2Isabelle
  imports Main "HOL-Library.Sublist" "HOL-Library.Word"
begin

section \<open>Data model\<close>

text \<open>
  The protobuf types of the orchestrator (package \<open>pb\<close>) are generated code; only the
  enum values and message fields that the runner's sources use are modelled.
  Go errors are modelled by their message text.
\<close>

type_synonym error = string

datatype Severity = LOW | MEDIUM | HIGH | CRITICAL

datatype ScanType = SAST | SCA | SECRETS | LICENSE

datatype ScanStatus = RUNNING | COMPLETED | FAILED

record Finding =
  ScanType :: ScanType
  Severity :: Severity
  Title :: string
  Description :: string
  FilePath :: string
  LineNumber :: "32 word"
  CodeSnippet :: string
  CweId :: string
  CveId :: string

section \<open>Severity mappings of the adapters\<close>

text \<open>\<open>SemgrepScanner.mapSeverity\<close> (SAST adapter).\<close>

definition Semgrep_mapSeverity :: "string \<Rightarrow> Severity" where
  "Semgrep_mapSeverity severity =
     (if severity = ''ERROR'' then HIGH
      else if severity = ''WARNING'' then MEDIUM
      else if severity = ''INFO'' then LOW
      else MEDIUM)"

text \<open>\<open>TrivyScanner.mapSeverity\<close> (SCA adapter).\<close>

definition Trivy_mapSeverity :: "string \<Rightarrow> Severity" where
  "Trivy_mapSeverity severity =
     (if severity = ''CRITICAL'' then CRITICAL
      else if severity = ''HIGH'' then HIGH
      else if severity = ''MEDIUM'' then MEDIUM
      else if severity = ''LOW'' then LOW
      else MEDIUM)"

text \<open>\<open>ScanCodeScanner.getLicenseSeverity\<close> (LICENSE adapter).\<close>

definition getLicenseSeverity :: "string \<Rightarrow> Severity" where
  "getLicenseSeverity category =
     (if category = ''Copyleft'' \<or> category = ''Strong Copyleft'' then HIGH
      else if category = ''Copyleft Limited'' then MEDIUM
      else if category = ''Permissive'' then LOW
      else if category = ''Proprietary Free'' then LOW
      else MEDIUM)"

section \<open>The secrets adapter (TruffleHog)\<close>

text \<open>
  Log records are kept as level and message; the structured fields attached to a
  record are not modelled.
\<close>

datatype Level = DebugLevel | InfoLevel | WarnLevel | ErrorLevel

type_synonym log_entry = "Level \<times> string"

text \<open>The anonymous struct that one line of TruffleHog output is decoded into.\<close>

record trufflehog_result =
  File :: string
  Line :: "64 word"
  SourceName :: string
  DetectorName :: string
  Raw :: string
  Verified :: bool

subsection \<open>The line scanner of the Go standard library\<close>

text \<open>
  \<open>Scan\<close> reads the subprocess's standard output through \<open>bufio.NewScanner\<close> with
  its defaults: the split function \<open>ScanLines\<close> and a token limit of
  \<open>MaxScanTokenSize\<close> bytes. A line ends at a newline; one trailing carriage return
  is dropped; what follows the last newline is delivered as a last line when it is
  not empty. When 65536 bytes are pending without a newline among them the scanner
  stops with \<open>ErrTooLong\<close>, and nothing after that point is delivered.
\<close>

definition NewLine :: char where
  "NewLine = CHR 0x0A"

definition CarriageReturn :: char where
  "CarriageReturn = CHR 0x0D"

text \<open>The pieces of the output between newlines; the last piece follows the last newline.\<close>

fun split_lines :: "string \<Rightarrow> string list" where
  "split_lines [] = [[]]"
| "split_lines (c # cs) =
     (if c = NewLine then [] # split_lines cs
      else (case split_lines cs of l # ls \<Rightarrow> (c # l) # ls | [] \<Rightarrow> [[c]]))"

text \<open>The lines of the output, terminators removed: an empty last piece is no line.\<close>

definition raw_lines :: "string \<Rightarrow> string list" where
  "raw_lines output =
     (let pieces = split_lines output
      in if pieces \<noteq> [] \<and> last pieces = [] then butlast pieces else pieces)"

definition dropCR :: "string \<Rightarrow> string" where
  "dropCR data = (if data \<noteq> [] \<and> last data = CarriageReturn then butlast data else data)"

definition MaxScanTokenSize :: nat where
  "MaxScanTokenSize = 64 * 1024"

definition ErrTooLong :: error where
  "ErrTooLong = ''bufio.Scanner: token too long''"

text \<open>A line fits the scanner's buffer together with its newline.\<close>

definition fits :: "string \<Rightarrow> bool" where
  "fits line = (length line < MaxScanTokenSize)"

text \<open>
  The lines that successive calls of \<open>scanner.Scan()\<close> deliver through
  \<open>scanner.Text()\<close>, and the value of \<open>scanner.Err()\<close> afterwards, for the bytes
  received and the error that ended the reading (\<open>None\<close> at end of file).
\<close>

definition Scanner_lines :: "string \<Rightarrow> string list" where
  "Scanner_lines output = map dropCR (takeWhile fits (raw_lines output))"

definition Scanner_Err :: "string \<Rightarrow> error option \<Rightarrow> error option" where
  "Scanner_Err output read_err =
     (if list_all fits (raw_lines output) then read_err else Some ErrTooLong)"

subsection \<open>The adapter\<close>

text \<open>
  What the outside world contributes to one call of \<open>TruffleHogScanner.Scan\<close>:
  the outcome of \<open>exec.LookPath\<close>, of \<open>cmd.StdoutPipe\<close> and of \<open>cmd.Start\<close>,
  the bytes the subprocess writes to its standard output before the reading ends,
  the error that ended the reading (\<open>None\<close> at end of file), the outcome of
  \<open>cmd.Wait\<close>, and the result of \<open>json.Unmarshal\<close> on a line.
  Each of these calls is taken to return: the deadline of the context ends the
  subprocess.
\<close>

record trufflehog_env =
  th_LookPath :: "error option"
  th_StdoutPipe :: "error option"
  th_Start :: "error option"
  th_stdout :: string
  th_read_err :: "error option"
  th_Wait :: "error option"
  th_Unmarshal :: "string \<Rightarrow> error + trufflehog_result"

definition TruffleHog_IsAvailable :: "trufflehog_env \<Rightarrow> bool" where
  "TruffleHog_IsAvailable env = (th_LookPath env = None)"

text \<open>The body of the loop \<open>for scanner.Scan() { ... }\<close>, for one line.\<close>

definition TruffleHog_line ::
  "trufflehog_env \<Rightarrow> string \<Rightarrow> Finding list \<times> log_entry list \<Rightarrow> Finding list \<times> log_entry list"
where
  "TruffleHog_line env line acc =
     (case acc of (findings, logs) \<Rightarrow>
        if line = [] then (findings, logs)
        else
          (case th_Unmarshal env line of
             Inl err \<Rightarrow>
               (findings, logs @ [(WarnLevel, ''Failed to parse trufflehog output line'')])
           | Inr result \<Rightarrow>
               let title = ''Secret detected: '' @ DetectorName result;
                   description =
                     ''Potential secret found in source code'' @
                     (if Verified result then '' (VERIFIED - this secret is active!)'' else []);
                   finding =
                     \<lparr> ScanType = SECRETS,
                       Severity = HIGH,
                       Title = title,
                       Description = description,
                       FilePath = File result,
                       LineNumber = ucast (Line result),
                       CodeSnippet = [],
                       CweId = [],
                       CveId = [] \<rparr>
               in (findings @ [finding], logs)))"

primrec TruffleHog_loop ::
  "trufflehog_env \<Rightarrow> string list \<Rightarrow> Finding list \<times> log_entry list \<Rightarrow> Finding list \<times> log_entry list"
where
  "TruffleHog_loop env [] acc = acc"
| "TruffleHog_loop env (line # rest) acc = TruffleHog_loop env rest (TruffleHog_line env line acc)"

text \<open>
  \<open>TruffleHogScanner.Scan\<close>: the findings, the returned error (\<open>None\<close> is Go's
  \<open>nil\<close>) and the log records written.
\<close>

definition TruffleHog_Scan ::
  "trufflehog_env \<Rightarrow> string \<Rightarrow> (Finding list \<times> error option) \<times> log_entry list"
where
  "TruffleHog_Scan env sourceDir =
     (let logs0 = [(InfoLevel, ''Starting TruffleHog scan'')] in
      if \<not> TruffleHog_IsAvailable env then
        (([], Some ''trufflehog is not installed''), logs0)
      else
        (case th_StdoutPipe env of
           Some err \<Rightarrow> (([], Some (''failed to create stdout pipe: '' @ err)), logs0)
         | None \<Rightarrow>
        (case th_Start env of
           Some err \<Rightarrow> (([], Some (''failed to start trufflehog: '' @ err)), logs0)
         | None \<Rightarrow>
        (case TruffleHog_loop env (Scanner_lines (th_stdout env)) ([], logs0) of
           (findings, logs1) \<Rightarrow>
             let logs2 =
                   (case Scanner_Err (th_stdout env) (th_read_err env) of
                      Some err \<Rightarrow> logs1 @ [(WarnLevel, ''Error reading trufflehog output'')]
                    | None \<Rightarrow> logs1);
                 logs3 =
                   (case th_Wait env of
                      Some err \<Rightarrow>
                        logs2 @ [(WarnLevel, ''TruffleHog exited with error (may have findings)'')]
                    | None \<Rightarrow> logs2)
             in ((findings, None), logs3 @ [(InfoLevel, ''TruffleHog scan complete'')])))))"

text \<open>A line of output counts as parsed when \<open>json.Unmarshal\<close> returns no error.\<close>

definition parses :: "trufflehog_env \<Rightarrow> string \<Rightarrow> bool" where
  "parses env line = (case th_Unmarshal env line of Inl err \<Rightarrow> False | Inr result \<Rightarrow> True)"

definition parse_warning :: log_entry where
  "parse_warning = (WarnLevel, ''Failed to parse trufflehog output line'')"

definition read_warning :: log_entry where
  "read_warning = (WarnLevel, ''Error reading trufflehog output'')"

definition exit_warning :: log_entry where
  "exit_warning = (WarnLevel, ''TruffleHog exited with error (may have findings)'')"


text \<open>
  Concrete runs of the secrets adapter. In the first the output has a detection, a
  line that is not JSON, an empty line and a second detection, and the subprocess
  exits with an error. The second is the first with the reading ended by an error.
  In the third the subprocess crashes without output. In the fourth a line of 65536
  bytes stands between two detections.
\<close>

definition demo_result :: trufflehog_result where
  "demo_result =
     \<lparr> File = ''app/config.py'', Line = 7, SourceName = ''trufflehog - filesystem'',
       DetectorName = ''AWS'', Raw = ''AKIA'', Verified = False \<rparr>"

definition demo_detection :: string where
  "demo_detection = ''{\"DetectorName\":\"AWS\"}''"

definition demo_long_line :: string where
  "demo_long_line = replicate 65536 (CHR ''a'')"

definition demo_trufflehog_env :: trufflehog_env where
  "demo_trufflehog_env =
     \<lparr> th_LookPath = None, th_StdoutPipe = None, th_Start = None,
       th_stdout = demo_detection @ NewLine # ''not json'' @ NewLine # NewLine #
                   demo_detection @ [NewLine],
       th_read_err = None, th_Wait = Some ''exit status 183'',
       th_Unmarshal = (\<lambda>l. if l = demo_detection then Inr demo_result
                            else Inl ''invalid character'') \<rparr>"

definition demo_trufflehog_broken_env :: trufflehog_env where
  "demo_trufflehog_broken_env =
     demo_trufflehog_env \<lparr> th_read_err := Some ''read |0: file already closed'' \<rparr>"

definition demo_trufflehog_silent_env :: trufflehog_env where
  "demo_trufflehog_silent_env =
     demo_trufflehog_env \<lparr> th_stdout := [], th_Wait := Some ''signal: segmentation fault'' \<rparr>"

definition demo_trufflehog_long_env :: trufflehog_env where
  "demo_trufflehog_long_env =
     demo_trufflehog_env
       \<lparr> th_stdout := demo_detection @ NewLine # demo_long_line @ NewLine #
                       demo_detection @ [NewLine] \<rparr>"

section \<open>The archive acquirer (package downloader)\<close>

subsection \<open>Path functions of the Go standard library\<close>

text \<open>
  The runner is built for Linux, so the path separator is the slash and
  \<open>filepath.HasPrefix\<close> is \<open>strings.HasPrefix\<close>, a comparison of bytes.
  \<open>Clean\<close>, \<open>Join\<close> and \<open>Dir\<close> follow the rules of \<open>path/filepath\<close> on Unix,
  element by element.
\<close>

definition PathSeparator :: char where
  "PathSeparator = CHR ''/''"

text \<open>The pieces of a path between separators (\<open>strings.Split(path, "/")\<close>).\<close>

fun elements :: "string \<Rightarrow> string list" where
  "elements [] = [[]]"
| "elements (c # cs) =
     (if c = PathSeparator then [] # elements cs
      else (case elements cs of e # es \<Rightarrow> (c # e) # es | [] \<Rightarrow> [[c]]))"

fun join_elements :: "string list \<Rightarrow> string" where
  "join_elements [] = []"
| "join_elements [e] = e"
| "join_elements (e # es) = e @ PathSeparator # join_elements es"

text \<open>
  One step of \<open>Clean\<close>: empty and \<open>.\<close> elements are dropped; \<open>..\<close> removes the
  preceding element when there is one that is not \<open>..\<close>, is dropped at the root of
  a rooted path, and is kept otherwise; any other element is appended.
\<close>

definition clean_element :: "bool \<Rightarrow> string list \<Rightarrow> string \<Rightarrow> string list" where
  "clean_element rooted out e =
     (if e = [] \<or> e = ''.'' then out
      else if e = ''..'' then
        (if out \<noteq> [] \<and> last out \<noteq> ''..'' then butlast out
         else if rooted then out
         else out @ [''..''])
      else out @ [e])"

definition Clean :: "string \<Rightarrow> string" where
  "Clean path =
     (if path = [] then ''.''
      else
        let rooted = (hd path = PathSeparator);
            out = foldl (clean_element rooted) [] (elements path);
            s = (if rooted then [PathSeparator] else []) @ join_elements out
        in if s = [] then ''.'' else s)"

text \<open>\<open>filepath.Join\<close> of two elements: empty elements are ignored, the result is cleaned.\<close>

definition Join :: "string \<Rightarrow> string \<Rightarrow> string" where
  "Join a b =
     (if a \<noteq> [] then Clean (a @ PathSeparator # b)
      else if b \<noteq> [] then Clean b
      else [])"

text \<open>\<open>filepath.Dir\<close>: everything up to and including the last separator, cleaned.\<close>

definition Dir :: "string \<Rightarrow> string" where
  "Dir path = Clean (rev (dropWhile (\<lambda>c. c \<noteq> PathSeparator) (rev path)))"

definition HasPrefix :: "string \<Rightarrow> string \<Rightarrow> bool" where
  "HasPrefix p pre = prefix pre p"

subsection \<open>File system and network\<close>

text \<open>
  The file system is observed through the history of the mutating calls made on it;
  a call is recorded when it is made, whatever its outcome: \<open>os.MkdirAll\<close>,
  \<open>os.Create\<close>, \<open>os.OpenFile\<close> for writing, \<open>io.Copy\<close> into a file (with the
  bytes copied), \<open>os.Remove\<close>, and the cloning of a repository into a directory.
  Closing files and response bodies, and the downloader's log records, are not modelled.
\<close>

text \<open>\<open>os.FileMode\<close>; the permission bits 0755 (octal) are the number 493.\<close>

type_synonym FileMode = "32 word"

datatype fs_op =
    MkdirAll string FileMode
  | Create string
  | OpenFile string FileMode
  | Copy string string
  | Remove string
  | Clone string string string string

type_synonym fs = "fs_op list"

text \<open>An entry of the archive: \<open>f.Name\<close>, \<open>f.FileInfo().IsDir()\<close>, \<open>f.Mode()\<close>, its bytes.\<close>

record zip_File =
  zip_Name :: string
  zip_IsDir :: bool
  zip_Mode :: FileMode
  zip_data :: string

record Response =
  resp_StatusCode :: int
  resp_Status :: string
  resp_Body :: string

text \<open>
  The outcomes of the operating-system and library calls the downloader makes:
  \<open>os.TempDir\<close>, \<open>os.MkdirAll\<close>, \<open>http.NewRequestWithContext\<close>, \<open>httpClient.Do\<close>,
  \<open>os.Create\<close>, \<open>io.Copy\<close> (by destination path), \<open>zip.OpenReader\<close>,
  \<open>f.Open\<close> (by entry name) and \<open>os.OpenFile\<close>.
\<close>

record downloader_env =
  dl_TempDir :: string
  dl_MkdirAll :: "string \<Rightarrow> error option"
  dl_NewRequest :: "string \<Rightarrow> error option"
  dl_Do :: "string \<Rightarrow> error + Response"
  dl_Create :: "string \<Rightarrow> error option"
  dl_Copy :: "string \<Rightarrow> error option"
  dl_OpenReader :: "string \<Rightarrow> error + zip_File list"
  dl_Open :: "string \<Rightarrow> error option"
  dl_OpenFile :: "string \<Rightarrow> error option"

definition StatusOK :: int where
  "StatusOK = 200"

subsection \<open>The downloader's functions\<close>

definition downloadFile ::
  "downloader_env \<Rightarrow> string \<Rightarrow> string \<Rightarrow> fs \<Rightarrow> error option \<times> fs"
where
  "downloadFile env url filepath fs =
     (case dl_NewRequest env url of
        Some err \<Rightarrow> (Some (''failed to create request: '' @ err), fs)
      | None \<Rightarrow>
     (case dl_Do env url of
        Inl err \<Rightarrow> (Some (''failed to download: '' @ err), fs)
      | Inr resp \<Rightarrow>
          if resp_StatusCode resp \<noteq> StatusOK then
            (Some (''download failed with status: '' @ resp_Status resp), fs)
          else
            let fs1 = fs @ [Create filepath] in
            (case dl_Create env filepath of
               Some err \<Rightarrow> (Some (''failed to create file: '' @ err), fs1)
             | None \<Rightarrow>
                 let fs2 = fs1 @ [Copy filepath (resp_Body resp)] in
                 (case dl_Copy env filepath of
                    Some err \<Rightarrow> (Some (''failed to write file: '' @ err), fs2)
                  | None \<Rightarrow> (None, fs2)))))"

definition extractFile ::
  "downloader_env \<Rightarrow> zip_File \<Rightarrow> string \<Rightarrow> fs \<Rightarrow> error option \<times> fs"
where
  "extractFile env f destDir fs =
     (let destPath = Join destDir (zip_Name f) in
      if \<not> HasPrefix destPath (Clean destDir @ [PathSeparator]) then
        (Some (''invalid file path: '' @ zip_Name f), fs)
      else if zip_IsDir f then
        (dl_MkdirAll env destPath, fs @ [MkdirAll destPath (zip_Mode f)])
      else
        let fs1 = fs @ [MkdirAll (Dir destPath) 493] in
        (case dl_MkdirAll env (Dir destPath) of
           Some err \<Rightarrow> (Some err, fs1)
         | None \<Rightarrow>
        (case dl_Open env (zip_Name f) of
           Some err \<Rightarrow> (Some err, fs1)
         | None \<Rightarrow>
             let fs2 = fs1 @ [OpenFile destPath (zip_Mode f)] in
             (case dl_OpenFile env destPath of
                Some err \<Rightarrow> (Some err, fs2)
              | None \<Rightarrow> (dl_Copy env destPath, fs2 @ [Copy destPath (zip_data f)])))))"

text \<open>The loop \<open>for _, f := range r.File\<close> of \<open>extractZip\<close>.\<close>

fun extractFiles ::
  "downloader_env \<Rightarrow> zip_File list \<Rightarrow> string \<Rightarrow> fs \<Rightarrow> error option \<times> fs"
where
  "extractFiles env [] destDir fs = (None, fs)"
| "extractFiles env (f # rest) destDir fs =
     (case extractFile env f destDir fs of
        (Some err, fs') \<Rightarrow> (Some (''failed to extract '' @ zip_Name f @ '': '' @ err), fs')
      | (None, fs') \<Rightarrow> extractFiles env rest destDir fs')"

definition extractZip ::
  "downloader_env \<Rightarrow> string \<Rightarrow> string \<Rightarrow> fs \<Rightarrow> error option \<times> fs"
where
  "extractZip env zipPath destDir fs =
     (case dl_OpenReader env zipPath of
        Inl err \<Rightarrow> (Some (''failed to open zip: '' @ err), fs)
      | Inr files \<Rightarrow> extractFiles env files destDir fs)"

text \<open>
  \<open>DownloadAndExtract\<close>. The deferred \<open>os.Remove(tempFile)\<close> runs on every return
  after the temporary path has been computed.
\<close>

definition DownloadAndExtract ::
  "downloader_env \<Rightarrow> string \<Rightarrow> string \<Rightarrow> fs \<Rightarrow> error option \<times> fs"
where
  "DownloadAndExtract env presignedURL destDir fs =
     (let fs1 = fs @ [MkdirAll destDir 493] in
      case dl_MkdirAll env destDir of
        Some err \<Rightarrow> (Some (''failed to create destination directory: '' @ err), fs1)
      | None \<Rightarrow>
          let tempFile = Join (dl_TempDir env) ''source.zip'' in
          (case downloadFile env presignedURL tempFile fs1 of
             (Some err, fs2) \<Rightarrow>
               (Some (''failed to download source: '' @ err), fs2 @ [Remove tempFile])
           | (None, fs2) \<Rightarrow>
          (case extractZip env tempFile destDir fs2 of
             (Some err, fs3) \<Rightarrow>
               (Some (''failed to extract source: '' @ err), fs3 @ [Remove tempFile])
           | (None, fs3) \<Rightarrow> (None, fs3 @ [Remove tempFile]))))"

text \<open>
  The security invariant in the specification's words: a path lies lexically within a
  root when both are rooted or both are not, the elements of the root are the leading
  elements of the path, and none of the remaining elements climbs to a parent.
  Both arguments are cleaned paths.
\<close>

definition path_elements :: "string \<Rightarrow> string list" where
  "path_elements p = filter (\<lambda>e. e \<noteq> [] \<and> e \<noteq> ''.'') (elements p)"

definition is_rooted :: "string \<Rightarrow> bool" where
  "is_rooted p = (p \<noteq> [] \<and> hd p = PathSeparator)"

definition lexically_within :: "string \<Rightarrow> string \<Rightarrow> bool" where
  "lexically_within root p =
     (is_rooted root = is_rooted p \<and>
      prefix (path_elements root) (path_elements p) \<and>
      ''..'' \<notin> set (drop (length (path_elements root)) (path_elements p)))"

text \<open>The path a recorded call acts on.\<close>

fun op_path :: "fs_op \<Rightarrow> string" where
  "op_path (MkdirAll p m) = p"
| "op_path (Create p) = p"
| "op_path (OpenFile p m) = p"
| "op_path (Copy p d) = p"
| "op_path (Remove p) = p"
| "op_path (Clone url branch commit destDir) = destDir"

text \<open>
  An element that \<open>Clean\<close> keeps in a rooted path: not empty, not \<open>.\<close>, not
  \<open>..\<close>, and free of separators.
\<close>

definition proper :: "string \<Rightarrow> bool" where
  "proper e = (e \<noteq> [] \<and> e \<noteq> ''.'' \<and> e \<noteq> ''..'' \<and> PathSeparator \<notin> set e)"

text \<open>
  A concrete environment: every call succeeds, the server answers 204 and the archive
  holds one file entry that climbs out of the destination.
\<close>

definition demo_downloader_env :: downloader_env where
  "demo_downloader_env =
     \<lparr> dl_TempDir = ''/tmp'',
       dl_MkdirAll = (\<lambda>p. None),
       dl_NewRequest = (\<lambda>u. None),
       dl_Do = (\<lambda>u. Inr \<lparr> resp_StatusCode = 204, resp_Status = ''204 No Content'',
                           resp_Body = [] \<rparr>),
       dl_Create = (\<lambda>p. None),
       dl_Copy = (\<lambda>p. None),
       dl_OpenReader = (\<lambda>p. Inr [\<lparr> zip_Name = ''../evil'', zip_IsDir = False,
                                    zip_Mode = 420, zip_data = ''x'' \<rparr>]),
       dl_Open = (\<lambda>n. None),
       dl_OpenFile = (\<lambda>p. None) \<rparr>"

text \<open>The same environment with the server answering 200.\<close>

definition demo_downloader_env_200 :: downloader_env where
  "demo_downloader_env_200 =
     demo_downloader_env
       \<lparr> dl_Do := (\<lambda>u. Inr \<lparr> resp_StatusCode = 200, resp_Status = ''200 OK'',
                                resp_Body = ''PK'' \<rparr>) \<rparr>"

section \<open>The scanner interface\<close>

text \<open>
  The four implementations of the interface \<open>scanners.Scanner\<close>; their structs hold
  only a logger. \<open>Name\<close> and \<open>Scanner_ScanType\<close> are the methods \<open>Name()\<close> and
  \<open>ScanType()\<close>.
\<close>

datatype Scanner = SemgrepScanner | TrivyScanner | TruffleHogScanner | ScanCodeScanner

fun Name :: "Scanner \<Rightarrow> string" where
  "Name SemgrepScanner = ''semgrep''"
| "Name TrivyScanner = ''trivy''"
| "Name TruffleHogScanner = ''trufflehog''"
| "Name ScanCodeScanner = ''scancode''"

fun Scanner_ScanType :: "Scanner \<Rightarrow> ScanType" where
  "Scanner_ScanType SemgrepScanner = SAST"
| "Scanner_ScanType TrivyScanner = SCA"
| "Scanner_ScanType TruffleHogScanner = SECRETS"
| "Scanner_ScanType ScanCodeScanner = LICENSE"

text \<open>\<open>scanners.Result\<close>; \<open>Error = None\<close> is a nil error.\<close>

record Result =
  Findings :: "Finding list"
  Result_ScanType :: ScanType
  ScannerName :: string
  Error :: "error option"

section \<open>The status reporting client (package orchestrator)\<close>

text \<open>
  The request messages as the client builds them. A field is \<open>Some v\<close> when the code
  assigns it and \<open>None\<close> when the struct literal leaves it at its zero value.
\<close>

record UpdateScanRequest =
  req_Id :: string
  req_Status :: "ScanStatus option"
  req_ErrorMessage :: "string option"
  req_TotalFindings :: "32 word option"

datatype rpc =
    UpdateScan UpdateScanRequest
  | CreateFindingsRPC string "Finding list"

text \<open>
  The world a run acts on: the remote procedure calls issued so far, in order, and
  the history of file-system calls.
\<close>

record world =
  rpcs :: "rpc list"
  files :: fs

definition initial_world :: world where
  "initial_world = \<lparr> rpcs = [], files = [] \<rparr>"

text \<open>
  What the outside world contributes to one run of the job: the outcome of
  \<open>grpc.DialContext\<close>, the outcome of every remote call (by its position in the
  sequence of calls and its request), the downloader's environment, the outcome of
  \<open>CloneGit\<close> (a method of the downloader that is not among the sources), the outcome
  of \<open>exec.LookPath\<close> by program name, the outcome of the \<open>Scan\<close> call made by the
  worker with a given index, and the time at which each worker finishes.
  Cancellation and deadlines of the context show up as errors in these outcomes.
\<close>

record run_env =
  env_Dial :: "string \<Rightarrow> error option"
  env_rpc :: "nat \<Rightarrow> rpc \<Rightarrow> error option"
  env_downloader :: downloader_env
  env_CloneGit :: "string \<Rightarrow> string \<Rightarrow> string \<Rightarrow> string \<Rightarrow> error option"
  env_LookPath :: "string \<Rightarrow> error option"
  env_Scan :: "nat \<Rightarrow> Scanner \<Rightarrow> string \<Rightarrow> Finding list \<times> error option"
  env_finish :: "nat \<Rightarrow> nat"

text \<open>\<open>NewClient\<close>: \<open>None\<close> when the connection is established.\<close>

definition NewClient :: "run_env \<Rightarrow> string \<Rightarrow> error option" where
  "NewClient env endpoint =
     (case env_Dial env endpoint of
        Some err \<Rightarrow> Some (''failed to connect to orchestrator: '' @ err)
      | None \<Rightarrow> None)"

text \<open>One remote call: it is appended to the sequence of calls and the world answers.\<close>

definition invoke :: "run_env \<Rightarrow> rpc \<Rightarrow> world \<Rightarrow> error option \<times> world" where
  "invoke env r w = (env_rpc env (length (rpcs w)) r, w\<lparr>rpcs := rpcs w @ [r]\<rparr>)"

definition UpdateScanStatus ::
  "run_env \<Rightarrow> string \<Rightarrow> ScanStatus \<Rightarrow> string \<Rightarrow> world \<Rightarrow> error option \<times> world"
where
  "UpdateScanStatus env scanID status errorMsg w =
     (let req = \<lparr> req_Id = scanID, req_Status = Some status,
                   req_ErrorMessage = (if errorMsg \<noteq> [] then Some errorMsg else None),
                   req_TotalFindings = None \<rparr>
      in case invoke env (UpdateScan req) w of
           (Some err, w') \<Rightarrow> (Some (''failed to update scan status: '' @ err), w')
         | (None, w') \<Rightarrow> (None, w'))"

definition CreateFindings ::
  "run_env \<Rightarrow> string \<Rightarrow> Finding list \<Rightarrow> world \<Rightarrow> error option \<times> world"
where
  "CreateFindings env scanID findings w =
     (if length findings = 0 then (None, w)
      else
        (case invoke env (CreateFindingsRPC scanID findings) w of
           (Some err, w') \<Rightarrow> (Some (''failed to create findings: '' @ err), w')
         | (None, w') \<Rightarrow> (None, w')))"

definition UpdateFindingsCount ::
  "run_env \<Rightarrow> string \<Rightarrow> 32 word \<Rightarrow> world \<Rightarrow> error option \<times> world"
where
  "UpdateFindingsCount env scanID count w =
     (let req = \<lparr> req_Id = scanID, req_Status = None, req_ErrorMessage = None,
                   req_TotalFindings = Some count \<rparr>
      in case invoke env (UpdateScan req) w of
           (Some err, w') \<Rightarrow> (Some (''failed to update findings count: '' @ err), w')
         | (None, w') \<Rightarrow> (None, w'))"

section \<open>The job (package main)\<close>

text \<open>The fields of \<open>config.Config\<close> that \<open>runScan\<close> reads; the scan id in its text form.\<close>

record Config =
  ScanID :: string
  ScanTypes :: "string list"
  GitURL :: string
  GitBranch :: string
  GitCommit :: string
  OrchestratorEndpoint :: string
  SourceDownloadURL :: string
  WorkDir :: string

text \<open>
  \<open>IsAvailable\<close>: each implementation looks up its program with \<open>exec.LookPath\<close>;
  the program's name is the string its \<open>Name()\<close> returns.
\<close>

definition IsAvailable :: "run_env \<Rightarrow> Scanner \<Rightarrow> bool" where
  "IsAvailable env scanner = (env_LookPath env (Name scanner) = None)"

text \<open>
  \<open>initializeScanners\<close>: the body of the loop over the requested scan types, for one
  scan type, and the loop.
\<close>

definition initializeScanners_case :: "run_env \<Rightarrow> Scanner list \<Rightarrow> string \<Rightarrow> Scanner list" where
  "initializeScanners_case env scannerList scanType =
     (if scanType = ''sast'' \<or> scanType = ''SAST'' then
        (if IsAvailable env SemgrepScanner then scannerList @ [SemgrepScanner] else scannerList)
      else if scanType = ''sca'' \<or> scanType = ''SCA'' then
        (if IsAvailable env TrivyScanner then scannerList @ [TrivyScanner] else scannerList)
      else if scanType = ''secrets'' \<or> scanType = ''SECRETS'' then
        (if IsAvailable env TruffleHogScanner then scannerList @ [TruffleHogScanner]
         else scannerList)
      else if scanType = ''license'' \<or> scanType = ''LICENSE'' then
        (if IsAvailable env ScanCodeScanner then scannerList @ [ScanCodeScanner]
         else scannerList)
      else scannerList)"

primrec initializeScanners_loop :: "run_env \<Rightarrow> string list \<Rightarrow> Scanner list \<Rightarrow> Scanner list"
where
  "initializeScanners_loop env [] scannerList = scannerList"
| "initializeScanners_loop env (scanType # rest) scannerList =
     initializeScanners_loop env rest (initializeScanners_case env scannerList scanType)"

definition initializeScanners :: "run_env \<Rightarrow> string list \<Rightarrow> Scanner list" where
  "initializeScanners env scanTypes = initializeScanners_loop env scanTypes []"

text \<open>
  \<open>runScannersParallel\<close>. The body of one goroutine calls \<open>Scan\<close> and stores the
  result in the slot with its own index. The goroutines store their results in the
  order in which they finish; \<open>wg.Wait()\<close> returns when all of them have.
  A slot that has not been written holds the nil pointer, \<open>None\<close>.
\<close>

definition worker ::
  "run_env \<Rightarrow> string \<Rightarrow> Scanner list \<Rightarrow> Result option list \<Rightarrow> nat \<Rightarrow> Result option list"
where
  "worker env sourceDir scannerList results idx =
     (let scnr = scannerList ! idx in
      case env_Scan env idx scnr sourceDir of
        (findings, err) \<Rightarrow>
          results[idx := Some \<lparr> Findings = findings,
                                 Result_ScanType = Scanner_ScanType scnr,
                                 ScannerName = Name scnr,
                                 Error = err \<rparr>])"

definition runScannersParallel ::
  "run_env \<Rightarrow> Scanner list \<Rightarrow> string \<Rightarrow> Result option list"
where
  "runScannersParallel env scannerList sourceDir =
     (let results = replicate (length scannerList) None;
          finished = sort_key (env_finish env) [0..<length scannerList]
      in foldl (worker env sourceDir scannerList) results finished)"

text \<open>
  The loop of \<open>runScan\<close> over the results, collecting \<open>allFindings\<close> and
  \<open>scanErrors\<close>; reading through a nil pointer would panic (\<open>None\<close>).
\<close>

fun collect ::
  "Result option list \<Rightarrow> Finding list \<times> string list \<Rightarrow> (Finding list \<times> string list) option"
where
  "collect [] acc = Some acc"
| "collect (None # rest) acc = None"
| "collect (Some result # rest) (allFindings, scanErrors) =
     (case Error result of
        Some err \<Rightarrow> collect rest (allFindings, scanErrors @ [ScannerName result @ '': '' @ err])
      | None \<Rightarrow> collect rest (allFindings @ Findings result, scanErrors))"

text \<open>The verb \<open>%v\<close> of package fmt applied to a slice of strings.\<close>

fun join_spaces :: "string list \<Rightarrow> string" where
  "join_spaces [] = []"
| "join_spaces [s] = s"
| "join_spaces (s # rest) = s @ '' '' @ join_spaces rest"

definition format_strings :: "string list \<Rightarrow> string" where
  "format_strings xs = ''['' @ join_spaces xs @ '']''"

text \<open>How a call of \<open>runScan\<close> ends: it returns an error or nil, or it panics.\<close>

datatype outcome = Return "error option" | Panic

text \<open>Running a downloader function on the file-system part of the world.\<close>

definition on_files :: "(fs \<Rightarrow> error option \<times> fs) \<Rightarrow> world \<Rightarrow> error option \<times> world" where
  "on_files f w = (case f (files w) of (r, fs') \<Rightarrow> (r, w\<lparr>files := fs'\<rparr>))"

text \<open>
  \<open>Downloader.CloneGit\<close> is not among the sources: its outcome is a parameter and the
  call is recorded as an operation on the working directory.
\<close>

definition CloneGit ::
  "run_env \<Rightarrow> string \<Rightarrow> string \<Rightarrow> string \<Rightarrow> string \<Rightarrow> fs \<Rightarrow> error option \<times> fs"
where
  "CloneGit env url branch commit destDir fs =
     (env_CloneGit env url branch commit destDir, fs @ [Clone url branch commit destDir])"

text \<open>
  \<open>runScan\<close> is embedded in three parts: the step that prepares the source tree, the
  step that runs the scanners and reports, and the function itself, which connects,
  announces RUNNING and runs the two steps. The deferred \<open>cancel()\<close> and
  \<open>orchClient.Close()\<close> and the log records are not modelled.
\<close>

text \<open>
  \<open>runScan\<close>, lines 69 to 96: preparing the source tree. On failure the FAILED status
  is sent (its own result ignored) and the error is returned.
\<close>

definition runScan_source :: "run_env \<Rightarrow> Config \<Rightarrow> world \<Rightarrow> error option \<times> world" where
  "runScan_source env cfg w =
     (if SourceDownloadURL cfg \<noteq> [] then
        (case on_files (DownloadAndExtract (env_downloader env) (SourceDownloadURL cfg)
                          (WorkDir cfg)) w of
           (Some err, w1) \<Rightarrow>
             (Some (''failed to download source: '' @ err),
              snd (UpdateScanStatus env (ScanID cfg) FAILED
                     (''Failed to download source: '' @ err) w1))
         | (None, w1) \<Rightarrow> (None, w1))
      else if GitURL cfg \<noteq> [] then
        (case on_files (CloneGit env (GitURL cfg) (GitBranch cfg) (GitCommit cfg) (WorkDir cfg)) w of
           (Some err, w1) \<Rightarrow>
             (Some (''failed to clone repository: '' @ err),
              snd (UpdateScanStatus env (ScanID cfg) FAILED
                     (''Failed to clone repository: '' @ err) w1))
         | (None, w1) \<Rightarrow> (None, w1))
      else
        let errMsg =
              ''No source specified: neither SOURCE_DOWNLOAD_URL nor REPOSITORY_URL provided''
        in (Some errMsg, snd (UpdateScanStatus env (ScanID cfg) FAILED errMsg w)))"

text \<open>\<open>runScan\<close>, lines 98 to 156: running the scanners and reporting.\<close>

definition runScan_scan :: "run_env \<Rightarrow> Config \<Rightarrow> world \<Rightarrow> outcome \<times> world" where
  "runScan_scan env cfg w =
     (let scannerList = initializeScanners env (ScanTypes cfg) in
      if length scannerList = 0 then
        (Return (Some ''no scanners available''),
         snd (UpdateScanStatus env (ScanID cfg) FAILED
                ''No scanners available for requested scan types'' w))
      else
        let results = runScannersParallel env scannerList (WorkDir cfg) in
        (case collect results ([], []) of
           None \<Rightarrow> (Panic, w)
         | Some (allFindings, scanErrors) \<Rightarrow>
             let (scanErrors1, w1) =
                   (if length allFindings > 0 then
                      let (err, wa) = CreateFindings env (ScanID cfg) allFindings w;
                          scanErrorsa =
                            (case err of
                               Some e \<Rightarrow> scanErrors @ [''Failed to upload findings: '' @ e]
                             | None \<Rightarrow> scanErrors);
                          wb = snd (UpdateFindingsCount env (ScanID cfg)
                                      (word_of_nat (length allFindings)) wa)
                      in (scanErrorsa, wb)
                    else (scanErrors, w))
             in
             if length scanErrors1 > 0 then
               let errorMsg = ''Scan completed with errors: '' @ format_strings scanErrors1 in
               (Return (Some (''scan had errors: '' @ format_strings scanErrors1)),
                snd (UpdateScanStatus env (ScanID cfg) FAILED errorMsg w1))
             else
               (Return None, snd (UpdateScanStatus env (ScanID cfg) COMPLETED [] w1))))"

definition runScan :: "run_env \<Rightarrow> Config \<Rightarrow> world \<Rightarrow> outcome \<times> world" where
  "runScan env cfg w =
     (case NewClient env (OrchestratorEndpoint cfg) of
        Some err \<Rightarrow> (Return (Some (''failed to connect to orchestrator: '' @ err)), w)
      | None \<Rightarrow>
          let w1 = snd (UpdateScanStatus env (ScanID cfg) RUNNING [] w) in
          (case runScan_source env cfg w1 of
             (Some err, w2) \<Rightarrow> (Return (Some err), w2)
           | (None, w2) \<Rightarrow> runScan_scan env cfg w2))"

section \<open>Notions used to state the properties\<close>

text \<open>The result that the worker with index \<open>idx\<close> stores in its slot.\<close>

definition worker_result :: "run_env \<Rightarrow> string \<Rightarrow> Scanner list \<Rightarrow> nat \<Rightarrow> Result" where
  "worker_result env sourceDir scannerList idx =
     \<lparr> Findings = fst (env_Scan env idx (scannerList ! idx) sourceDir),
       Result_ScanType = Scanner_ScanType (scannerList ! idx),
       ScannerName = Name (scannerList ! idx),
       Error = snd (env_Scan env idx (scannerList ! idx) sourceDir) \<rparr>"

text \<open>The results of the adapters in a run that reaches the scanning step.\<close>

definition scan_results :: "run_env \<Rightarrow> Config \<Rightarrow> Result option list" where
  "scan_results env cfg =
     runScannersParallel env (initializeScanners env (ScanTypes cfg)) (WorkDir cfg)"

text \<open>The findings of the adapters that succeeded, in slot order.\<close>

fun succeeded_findings :: "Result option list \<Rightarrow> Finding list" where
  "succeeded_findings [] = []"
| "succeeded_findings (None # rest) = succeeded_findings rest"
| "succeeded_findings (Some r # rest) =
     (if Error r = None then Findings r else []) @ succeeded_findings rest"

text \<open>The adapters that failed, in slot order, each with its error.\<close>

fun failed_adapters :: "Result option list \<Rightarrow> (string \<times> error) list" where
  "failed_adapters [] = []"
| "failed_adapters (None # rest) = failed_adapters rest"
| "failed_adapters (Some r # rest) =
     (case Error r of Some err \<Rightarrow> [(ScannerName r, err)] | None \<Rightarrow> []) @ failed_adapters rest"

definition adapter_message :: "string \<times> error \<Rightarrow> string" where
  "adapter_message p = fst p @ '': '' @ snd p"

text \<open>
  The run has connected and prepared the source tree, so that the adapters are run:
  the step that prepares the source, started after the RUNNING update, returns no error.
\<close>

definition adapters_reached :: "run_env \<Rightarrow> Config \<Rightarrow> bool" where
  "adapters_reached env cfg =
     (NewClient env (OrchestratorEndpoint cfg) = None \<and>
      fst (runScan_source env cfg
             (snd (UpdateScanStatus env (ScanID cfg) RUNNING [] initial_world))) = None)"

text \<open>The status updates among a sequence of remote calls, in order.\<close>

fun status_updates :: "rpc list \<Rightarrow> ScanStatus list" where
  "status_updates [] = []"
| "status_updates (UpdateScan req # rest) =
     (case req_Status req of Some s \<Rightarrow> s # status_updates rest | None \<Rightarrow> status_updates rest)"
| "status_updates (CreateFindingsRPC scanID findings # rest) = status_updates rest"

definition terminal :: "ScanStatus \<Rightarrow> bool" where
  "terminal s = (s = COMPLETED \<or> s = FAILED)"

text \<open>
  A sequence of status updates is monotonic when a terminal update, if there is one,
  comes after a RUNNING update, there is at most one terminal update, and no RUNNING
  update follows a terminal one.
\<close>

definition monotonic :: "ScanStatus list \<Rightarrow> bool" where
  "monotonic us =
     (let before = takeWhile (\<lambda>s. \<not> terminal s) us;
          from_terminal = dropWhile (\<lambda>s. \<not> terminal s) us
      in (from_terminal \<noteq> [] \<longrightarrow> RUNNING \<in> set before) \<and>
         length (filter terminal us) \<le> 1 \<and>
         RUNNING \<notin> set (tl from_terminal))"

text \<open>The calls that deliver findings and the calls that report the findings count.\<close>

fun is_CreateFindings :: "rpc \<Rightarrow> bool" where
  "is_CreateFindings (CreateFindingsRPC scanID findings) = True"
| "is_CreateFindings (UpdateScan req) = False"

fun is_FindingsCount :: "rpc \<Rightarrow> bool" where
  "is_FindingsCount (UpdateScan req) = (req_TotalFindings req \<noteq> None)"
| "is_FindingsCount (CreateFindingsRPC scanID findings) = False"

text \<open>The request of a status update, as \<open>UpdateScanStatus\<close> builds it.\<close>

definition status_request :: "string \<Rightarrow> ScanStatus \<Rightarrow> string \<Rightarrow> rpc" where
  "status_request scanID status errorMsg =
     UpdateScan \<lparr> req_Id = scanID, req_Status = Some status,
                  req_ErrorMessage = (if errorMsg \<noteq> [] then Some errorMsg else None),
                  req_TotalFindings = None \<rparr>"

definition count_request :: "string \<Rightarrow> 32 word \<Rightarrow> rpc" where
  "count_request scanID count =
     UpdateScan \<lparr> req_Id = scanID, req_Status = None, req_ErrorMessage = None,
                  req_TotalFindings = Some count \<rparr>"

text \<open>A concrete run: two adapters, the second finishing first.\<close>

definition demo_finding :: Finding where
  "demo_finding =
     \<lparr> ScanType = SCA, Severity = HIGH, Title = ''CVE-1 in lib@1.0'', Description = [],
       FilePath = ''go.mod'', LineNumber = 0, CodeSnippet = [], CweId = [], CveId = ''CVE-1'' \<rparr>"

definition demo_env :: run_env where
  "demo_env =
     \<lparr> env_Dial = (\<lambda>endpoint. None),
       env_rpc = (\<lambda>n r. None),
       env_downloader =
         demo_downloader_env
           \<lparr> dl_Do := (\<lambda>u. Inr \<lparr> resp_StatusCode = 200, resp_Status = ''200 OK'',
                                  resp_Body = ''PK'' \<rparr>),
             dl_OpenReader := (\<lambda>p. Inr []) \<rparr>,
       env_CloneGit = (\<lambda>url branch commit dir. None),
       env_LookPath = (\<lambda>file. None),
       env_Scan = (\<lambda>idx scnr dir.
          if scnr = TrivyScanner then ([demo_finding], None)
          else ([], Some ''failed to parse semgrep results: failed to read results: no such file'')),
       env_finish = (\<lambda>idx. 10 - idx) \<rparr>"

definition demo_cfg :: Config where
  "demo_cfg =
     \<lparr> ScanID = ''7d9f7a52-0d0e-4c53-9a39-5f1d3b0c2a11'',
       ScanTypes = [''sca'', ''sast''],
       GitURL = [], GitBranch = [], GitCommit = [],
       OrchestratorEndpoint = ''orchestrator:9999'',
       SourceDownloadURL = ''https://bucket/source.zip'',
       WorkDir = ''/workspace'' \<rparr>"

text \<open>The errors of the run after the delivery step, and the calls that step issues.\<close>

definition upload_errors :: "run_env \<Rightarrow> Config \<Rightarrow> nat \<Rightarrow> string list" where
  "upload_errors env cfg n =
     (if succeeded_findings (scan_results env cfg) = [] then []
      else (case env_rpc env n
                   (CreateFindingsRPC (ScanID cfg) (succeeded_findings (scan_results env cfg))) of
              Some err \<Rightarrow> [''Failed to upload findings: failed to create findings: '' @ err]
            | None \<Rightarrow> []))"

definition upload_calls :: "run_env \<Rightarrow> Config \<Rightarrow> rpc list" where
  "upload_calls env cfg =
     (if succeeded_findings (scan_results env cfg) = [] then []
      else [CreateFindingsRPC (ScanID cfg) (succeeded_findings (scan_results env cfg)),
            count_request (ScanID cfg)
              (word_of_nat (length (succeeded_findings (scan_results env cfg))))])"

definition all_errors :: "run_env \<Rightarrow> Config \<Rightarrow> nat \<Rightarrow> string list" where
  "all_errors env cfg n =
     map adapter_message (failed_adapters (scan_results env cfg)) @ upload_errors env cfg n"


text \<open>Concrete runs in which the delivery of findings fails, and in which nothing is found.\<close>

definition demo_env_upload_fails :: run_env where
  "demo_env_upload_fails =
     demo_env\<lparr>env_rpc := (\<lambda>n r. if is_CreateFindings r then Some ''rpc error: code = Unavailable''
                                 else None)\<rparr>"

definition demo_cfg_sca :: Config where
  "demo_cfg_sca = demo_cfg\<lparr>ScanTypes := [''sca'']\<rparr>"

definition demo_env_clean :: run_env where
  "demo_env_clean = demo_env\<lparr>env_Scan := (\<lambda>idx scnr dir. ([], None))\<rparr>"

section \<open>Verified properties\<close>

subsection \<open>Severity mappings\<close>

text \<open>
  Claim C5. Each adapter's severity mapping is a total function on strings.
  The SAST mapping sends ERROR to HIGH, WARNING to MEDIUM, INFO to LOW and every other
  string to MEDIUM. The SCA mapping sends CRITICAL, HIGH, MEDIUM and LOW to the severity
  of the same name and every other string to MEDIUM. The LICENSE mapping sends
  Copyleft and Strong Copyleft to HIGH, Copyleft Limited to MEDIUM, Permissive and
  Proprietary Free to LOW, and every other string to MEDIUM.
\<close>

theorem severity_mappings_total:
  "Semgrep_mapSeverity ''ERROR'' = HIGH \<and>
   Semgrep_mapSeverity ''WARNING'' = MEDIUM \<and>
   Semgrep_mapSeverity ''INFO'' = LOW \<and>
   (\<forall>s. s \<notin> {''ERROR'', ''WARNING'', ''INFO''} \<longrightarrow> Semgrep_mapSeverity s = MEDIUM) \<and>
   Trivy_mapSeverity ''CRITICAL'' = CRITICAL \<and>
   Trivy_mapSeverity ''HIGH'' = HIGH \<and>
   Trivy_mapSeverity ''MEDIUM'' = MEDIUM \<and>
   Trivy_mapSeverity ''LOW'' = LOW \<and>
   (\<forall>s. s \<notin> {''CRITICAL'', ''HIGH'', ''MEDIUM'', ''LOW''} \<longrightarrow> Trivy_mapSeverity s = MEDIUM) \<and>
   getLicenseSeverity ''Copyleft'' = HIGH \<and>
   getLicenseSeverity ''Strong Copyleft'' = HIGH \<and>
   getLicenseSeverity ''Copyleft Limited'' = MEDIUM \<and>
   getLicenseSeverity ''Permissive'' = LOW \<and>
   getLicenseSeverity ''Proprietary Free'' = LOW \<and>
   (\<forall>s. s \<notin> {''Copyleft'', ''Strong Copyleft'', ''Copyleft Limited'', ''Permissive'',
               ''Proprietary Free''} \<longrightarrow> getLicenseSeverity s = MEDIUM)"
  by (simp add: Semgrep_mapSeverity_def Trivy_mapSeverity_def getLicenseSeverity_def)

theorem severity_mappings_total_witness:
  "''error'' \<notin> {''ERROR'', ''WARNING'', ''INFO''} \<and>
   Semgrep_mapSeverity ''error'' = MEDIUM \<and>
   ''UNKNOWN'' \<notin> {''CRITICAL'', ''HIGH'', ''MEDIUM'', ''LOW''} \<and>
   Trivy_mapSeverity ''UNKNOWN'' = MEDIUM \<and>
   [] \<notin> {''Copyleft'', ''Strong Copyleft'', ''Copyleft Limited'', ''Permissive'',
          ''Proprietary Free''} \<and>
   getLicenseSeverity [] = MEDIUM"
  using severity_mappings_total by simp

subsection \<open>The secrets adapter\<close>

lemma TruffleHog_loop_findings:
  "length (fst (TruffleHog_loop env ls acc)) =
     length (fst acc) + length (filter (\<lambda>l. l \<noteq> [] \<and> parses env l) ls)"
  by (induction ls arbitrary: acc)
     (auto simp: TruffleHog_line_def parses_def Let_def split: sum.splits prod.splits)

lemma TruffleHog_loop_logs:
  "snd (TruffleHog_loop env ls acc) =
     snd acc @ replicate (length (filter (\<lambda>l. l \<noteq> [] \<and> \<not> parses env l) ls)) parse_warning"
  by (induction ls arbitrary: acc)
     (auto simp: TruffleHog_line_def parses_def parse_warning_def Let_def replicate_append_same
           split: sum.splits prod.splits)

text \<open>Once the subprocess has started, the call runs the loop and returns no error.\<close>

lemma TruffleHog_Scan_started:
  assumes "TruffleHog_IsAvailable env" "th_StdoutPipe env = None" "th_Start env = None"
  shows "TruffleHog_Scan env dir =
    ((fst (TruffleHog_loop env (Scanner_lines (th_stdout env))
             ([], [(InfoLevel, ''Starting TruffleHog scan'')])), None),
     snd (TruffleHog_loop env (Scanner_lines (th_stdout env))
            ([], [(InfoLevel, ''Starting TruffleHog scan'')])) @
     (case Scanner_Err (th_stdout env) (th_read_err env) of
        Some err \<Rightarrow> [read_warning] | None \<Rightarrow> []) @
     (case th_Wait env of Some err \<Rightarrow> [exit_warning] | None \<Rightarrow> []) @
     [(InfoLevel, ''TruffleHog scan complete'')])"
  using assms
  by (simp add: TruffleHog_Scan_def Let_def read_warning_def exit_warning_def
           split: prod.splits option.splits)

text \<open>Splitting the output at newlines.\<close>

lemma split_lines_not_Nil: "split_lines s \<noteq> []"
  by (induction s) (auto split: list.splits)

lemma split_lines_append:
  "split_lines (a @ NewLine # b) = split_lines a @ split_lines b"
  by (induction a) (auto split: list.splits simp: split_lines_not_Nil)

lemma split_lines_no_newline: "NewLine \<notin> set l \<Longrightarrow> split_lines l = [l]"
  by (induction l) (auto split: list.splits)

lemma split_lines_line:
  "NewLine \<notin> set l \<Longrightarrow> split_lines (l @ NewLine # rest) = l # split_lines rest"
  by (simp add: split_lines_append split_lines_no_newline)


lemma Scanner_Err_all:
  "list_all fits (raw_lines output) \<Longrightarrow> Scanner_Err output read_err = read_err"
  by (simp add: Scanner_Err_def)


text \<open>The concrete runs.\<close>

lemma demo_trufflehog_env_started:
  "TruffleHog_IsAvailable demo_trufflehog_env"
  "th_StdoutPipe demo_trufflehog_env = None"
  "th_Start demo_trufflehog_env = None"
  "TruffleHog_IsAvailable demo_trufflehog_long_env"
  "th_StdoutPipe demo_trufflehog_long_env = None"
  "th_Start demo_trufflehog_long_env = None"
  by (simp_all add: TruffleHog_IsAvailable_def demo_trufflehog_env_def
        demo_trufflehog_long_env_def)

lemma demo_no_newline:
  "NewLine \<notin> set demo_detection" "NewLine \<notin> set ''not json''" "NewLine \<notin> set demo_long_line"
  by (simp_all add: NewLine_def demo_detection_def demo_long_line_def)

lemma demo_raw_lines:
  "raw_lines (th_stdout demo_trufflehog_env) = [demo_detection, ''not json'', [], demo_detection]"
  by (simp add: demo_trufflehog_env_def raw_lines_def demo_detection_def NewLine_def)

lemma demo_raw_lines_long:
  "raw_lines (th_stdout demo_trufflehog_long_env) =
     [demo_detection, demo_long_line, demo_detection]"
  by (simp add: demo_trufflehog_env_def demo_trufflehog_long_env_def raw_lines_def
        split_lines_line demo_no_newline)

lemma demo_fits:
  "fits demo_detection" "fits ''not json''" "fits []" "\<not> fits demo_long_line"
  by (simp_all add: fits_def MaxScanTokenSize_def demo_detection_def demo_long_line_def)

lemma demo_dropCR:
  "dropCR demo_detection = demo_detection" "dropCR ''not json'' = ''not json''" "dropCR [] = []"
  by (simp_all add: dropCR_def CarriageReturn_def demo_detection_def)


lemma demo_Scanner_lines:
  "Scanner_lines (th_stdout demo_trufflehog_env) = [demo_detection, ''not json'', [], demo_detection]"
  "Scanner_lines (th_stdout demo_trufflehog_long_env) = [demo_detection]"
  by (simp_all add: Scanner_lines_def demo_raw_lines demo_raw_lines_long demo_fits demo_dropCR)


lemma demo_long_line_differs: "demo_long_line \<noteq> demo_detection" "demo_long_line \<noteq> []"
proof -
  have "length demo_long_line \<noteq> length demo_detection"
    by (simp add: demo_long_line_def demo_detection_def)
  then show "demo_long_line \<noteq> demo_detection" by auto
  have "length demo_long_line \<noteq> 0" by (simp add: demo_long_line_def)
  then show "demo_long_line \<noteq> []" by auto
qed

lemma demo_parses:
  "parses demo_trufflehog_env demo_detection" "\<not> parses demo_trufflehog_env ''not json''"
  "parses demo_trufflehog_long_env demo_detection"
  "\<not> parses demo_trufflehog_long_env demo_long_line"
  "demo_detection \<noteq> []"
  using demo_long_line_differs
  by (simp_all add: parses_def demo_trufflehog_env_def demo_trufflehog_long_env_def)
     (simp_all add: demo_detection_def)



text \<open>The log of a call that started the subprocess.\<close>

lemma TruffleHog_Scan_logs:
  assumes "TruffleHog_IsAvailable env" "th_StdoutPipe env = None" "th_Start env = None"
  shows "snd (TruffleHog_Scan env dir) =
           (InfoLevel, ''Starting TruffleHog scan'') #
           replicate (length (filter (\<lambda>l. l \<noteq> [] \<and> \<not> parses env l)
                                (Scanner_lines (th_stdout env)))) parse_warning @
           (case Scanner_Err (th_stdout env) (th_read_err env) of
              Some err \<Rightarrow> [read_warning] | None \<Rightarrow> []) @
           (case th_Wait env of Some err \<Rightarrow> [exit_warning] | None \<Rightarrow> []) @
           [(InfoLevel, ''TruffleHog scan complete'')]"
  by (simp add: TruffleHog_Scan_started [OF assms] TruffleHog_loop_logs)

lemma TruffleHog_Scan_findings:
  assumes "TruffleHog_IsAvailable env" "th_StdoutPipe env = None" "th_Start env = None"
  shows "snd (fst (TruffleHog_Scan env dir)) = None"
    and "length (fst (fst (TruffleHog_Scan env dir))) =
           length (filter (\<lambda>l. l \<noteq> [] \<and> parses env l) (Scanner_lines (th_stdout env)))"
  by (simp_all add: TruffleHog_Scan_started [OF assms] TruffleHog_loop_findings)




text \<open>
  Claim C9. Once the trufflehog subprocess has been started, the call returns a nil
  error whatever the subprocess writes, however the reading ends and however the
  subprocess exits, and each of these failures is logged as a warning and otherwise
  ignored: the log holds one parse warning for every non-empty processed line that
  does not parse, then the reading warning when the scanner ended with an error (as it
  does after a read error), then the exit warning when \<open>cmd.Wait\<close> returned an
  error. A subprocess that produces no output, crashed or not, yields zero findings
  and a nil error.
\<close>

theorem trufflehog_started_returns_nil:
  assumes "TruffleHog_IsAvailable env" "th_StdoutPipe env = None" "th_Start env = None"
  shows "snd (fst (TruffleHog_Scan env dir)) = None \<and>
         snd (TruffleHog_Scan env dir) =
           (InfoLevel, ''Starting TruffleHog scan'') #
           replicate (length (filter (\<lambda>l. l \<noteq> [] \<and> \<not> parses env l)
                                (Scanner_lines (th_stdout env)))) parse_warning @
           (case Scanner_Err (th_stdout env) (th_read_err env) of
              Some err \<Rightarrow> [read_warning] | None \<Rightarrow> []) @
           (case th_Wait env of Some err \<Rightarrow> [exit_warning] | None \<Rightarrow> []) @
           [(InfoLevel, ''TruffleHog scan complete'')] \<and>
         (th_Wait env \<noteq> None \<longrightarrow> exit_warning \<in> set (snd (TruffleHog_Scan env dir))) \<and>
         (th_read_err env \<noteq> None \<longrightarrow> read_warning \<in> set (snd (TruffleHog_Scan env dir))) \<and>
         (\<forall>l \<in> set (Scanner_lines (th_stdout env)). l \<noteq> [] \<and> \<not> parses env l \<longrightarrow>
            parse_warning \<in> set (snd (TruffleHog_Scan env dir))) \<and>
         (th_stdout env = [] \<longrightarrow> fst (TruffleHog_Scan env dir) = ([], None))"
proof -
  note logs = TruffleHog_Scan_logs [OF assms, of dir]
  have e: "th_Wait env \<noteq> None \<longrightarrow> exit_warning \<in> set (snd (TruffleHog_Scan env dir))"
    unfolding logs by auto
  have "th_read_err env \<noteq> None \<longrightarrow> Scanner_Err (th_stdout env) (th_read_err env) \<noteq> None"
    by (simp add: Scanner_Err_def)
  then have r: "th_read_err env \<noteq> None \<longrightarrow> read_warning \<in> set (snd (TruffleHog_Scan env dir))"
    unfolding logs by auto
  have p: "\<forall>l \<in> set (Scanner_lines (th_stdout env)). l \<noteq> [] \<and> \<not> parses env l \<longrightarrow>
            parse_warning \<in> set (snd (TruffleHog_Scan env dir))"
  proof (intro ballI impI)
    fix l assume "l \<in> set (Scanner_lines (th_stdout env))" "l \<noteq> [] \<and> \<not> parses env l"
    then have "l \<in> set (filter (\<lambda>l. l \<noteq> [] \<and> \<not> parses env l) (Scanner_lines (th_stdout env)))"
      by simp
    then have "0 < length (filter (\<lambda>l. l \<noteq> [] \<and> \<not> parses env l) (Scanner_lines (th_stdout env)))"
      by (metis length_pos_if_in_set)
    then show "parse_warning \<in> set (snd (TruffleHog_Scan env dir))"
      unfolding logs by simp
  qed
  have none: "th_stdout env = [] \<longrightarrow> fst (TruffleHog_Scan env dir) = ([], None)"
    by (simp add: TruffleHog_Scan_started [OF assms] Scanner_lines_def raw_lines_def)
  show ?thesis
    using TruffleHog_Scan_findings(1) [OF assms] logs e r p none by blast
qed


theorem trufflehog_started_returns_nil_witness:
  "TruffleHog_IsAvailable demo_trufflehog_broken_env \<and>
   th_StdoutPipe demo_trufflehog_broken_env = None \<and>
   th_Start demo_trufflehog_broken_env = None \<and>
   th_Wait demo_trufflehog_broken_env \<noteq> None \<and>
   th_read_err demo_trufflehog_broken_env \<noteq> None \<and>
   ''not json'' \<in> set (Scanner_lines (th_stdout demo_trufflehog_broken_env)) \<and>
   ''not json'' \<noteq> [] \<and> \<not> parses demo_trufflehog_broken_env ''not json'' \<and>
   snd (fst (TruffleHog_Scan demo_trufflehog_broken_env ''/workspace'')) = None \<and>
   snd (TruffleHog_Scan demo_trufflehog_broken_env ''/workspace'') =
     [(InfoLevel, ''Starting TruffleHog scan''), parse_warning, read_warning, exit_warning,
      (InfoLevel, ''TruffleHog scan complete'')] \<and>
   exit_warning \<in> set (snd (TruffleHog_Scan demo_trufflehog_broken_env ''/workspace'')) \<and>
   read_warning \<in> set (snd (TruffleHog_Scan demo_trufflehog_broken_env ''/workspace'')) \<and>
   parse_warning \<in> set (snd (TruffleHog_Scan demo_trufflehog_broken_env ''/workspace'')) \<and>
   TruffleHog_IsAvailable demo_trufflehog_silent_env \<and>
   th_StdoutPipe demo_trufflehog_silent_env = None \<and>
   th_Start demo_trufflehog_silent_env = None \<and>
   th_stdout demo_trufflehog_silent_env = [] \<and>
   fst (TruffleHog_Scan demo_trufflehog_silent_env ''/workspace'') = ([], None)"
proof -
  have h: "TruffleHog_IsAvailable demo_trufflehog_broken_env"
    "th_StdoutPipe demo_trufflehog_broken_env = None"
    "th_Start demo_trufflehog_broken_env = None"
    using demo_trufflehog_env_started(1-3)
    by (simp_all add: demo_trufflehog_broken_env_def TruffleHog_IsAvailable_def)
  have hs: "TruffleHog_IsAvailable demo_trufflehog_silent_env"
    "th_StdoutPipe demo_trufflehog_silent_env = None"
    "th_Start demo_trufflehog_silent_env = None"
    using demo_trufflehog_env_started(1-3)
    by (simp_all add: demo_trufflehog_silent_env_def TruffleHog_IsAvailable_def)
  have w: "th_Wait demo_trufflehog_broken_env = Some ''exit status 183''"
    by (simp add: demo_trufflehog_broken_env_def demo_trufflehog_env_def)
  have r: "th_read_err demo_trufflehog_broken_env = Some ''read |0: file already closed''"
    by (simp add: demo_trufflehog_broken_env_def)
  have out: "th_stdout demo_trufflehog_broken_env = th_stdout demo_trufflehog_env"
    by (simp add: demo_trufflehog_broken_env_def)
  have ps: "parses demo_trufflehog_broken_env = parses demo_trufflehog_env"
    by (rule ext) (simp add: parses_def demo_trufflehog_broken_env_def)
  have lines: "Scanner_lines (th_stdout demo_trufflehog_broken_env) =
      [demo_detection, ''not json'', [], demo_detection]"
    by (simp add: out demo_Scanner_lines)
  have err: "Scanner_Err (th_stdout demo_trufflehog_broken_env)
               (th_read_err demo_trufflehog_broken_env) =
             Some ''read |0: file already closed''"
    by (simp add: Scanner_Err_def out demo_raw_lines demo_fits r)
  have k: "length (filter (\<lambda>l. l \<noteq> [] \<and> \<not> parses demo_trufflehog_broken_env l)
             (Scanner_lines (th_stdout demo_trufflehog_broken_env))) = 1"
    by (simp add: lines ps demo_parses)
  have bad: "''not json'' \<in> set (Scanner_lines (th_stdout demo_trufflehog_broken_env))"
    "''not json'' \<noteq> [] \<and> \<not> parses demo_trufflehog_broken_env ''not json''"
    by (simp_all add: lines ps demo_parses)
  have silent: "th_stdout demo_trufflehog_silent_env = []"
    by (simp add: demo_trufflehog_silent_env_def)
  note inst = trufflehog_started_returns_nil [OF h, of "''/workspace''", unfolded k err w]
  note insts = trufflehog_started_returns_nil [OF hs, of "''/workspace''"]
  have logs: "snd (TruffleHog_Scan demo_trufflehog_broken_env ''/workspace'') =
     [(InfoLevel, ''Starting TruffleHog scan''), parse_warning, read_warning, exit_warning,
      (InfoLevel, ''TruffleHog scan complete'')]"
    using inst by simp
  have in_logs:
    "exit_warning \<in> set (snd (TruffleHog_Scan demo_trufflehog_broken_env ''/workspace''))"
    "read_warning \<in> set (snd (TruffleHog_Scan demo_trufflehog_broken_env ''/workspace''))"
    "parse_warning \<in> set (snd (TruffleHog_Scan demo_trufflehog_broken_env ''/workspace''))"
    unfolding logs by simp_all
  have nil: "snd (fst (TruffleHog_Scan demo_trufflehog_broken_env ''/workspace'')) = None"
    using inst by blast
  have quiet: "fst (TruffleHog_Scan demo_trufflehog_silent_env ''/workspace'') = ([], None)"
    using insts silent by blast
  show ?thesis
    using h hs w r bad nil logs in_logs silent quiet by simp
qed

subsection \<open>The archive acquirer\<close>

lemma downloadFile_bad_status:
  assumes "dl_Do env url = Inr resp" "resp_StatusCode resp \<noteq> 200"
  shows "downloadFile env url path fs =
           (Some (case dl_NewRequest env url of
                    Some err \<Rightarrow> ''failed to create request: '' @ err
                  | None \<Rightarrow> ''download failed with status: '' @ resp_Status resp), fs)"
  using assms by (simp add: downloadFile_def StatusOK_def split: option.splits)

lemma downloadFile_status_ok:
  assumes "dl_Do env url = Inr resp" "resp_StatusCode resp = 200"
  shows "downloadFile env url path fs =
           (case dl_NewRequest env url of
              Some err \<Rightarrow> (Some (''failed to create request: '' @ err), fs)
            | None \<Rightarrow>
                (case dl_Create env path of
                   Some err \<Rightarrow> (Some (''failed to create file: '' @ err), fs @ [Create path])
                 | None \<Rightarrow>
                     (case dl_Copy env path of
                        Some err \<Rightarrow>
                          (Some (''failed to write file: '' @ err),
                           fs @ [Create path, Copy path (resp_Body resp)])
                      | None \<Rightarrow> (None, fs @ [Create path, Copy path (resp_Body resp)]))))"
  using assms by (simp add: downloadFile_def StatusOK_def Let_def split: option.splits)

text \<open>
  Claim C10. \<open>downloadFile\<close> treats exactly status 200 as success. For every response
  whose status code differs from 200 (201 and 204 included) it returns an error and
  touches no file, and \<open>DownloadAndExtract\<close> then fails having done nothing but create
  the destination directory and remove the temporary file: no archive entry is
  extracted. For a response with status 200 no status error is raised: the body is
  written to the file and, the file calls succeeding, nil is returned, after which
  \<open>DownloadAndExtract\<close> goes on to extract. A nil result is returned for status 200
  only.
\<close>

theorem download_requires_status_200:
  assumes "dl_Do env url = Inr resp"
  shows "(resp_StatusCode resp \<noteq> 200 \<longrightarrow>
            fst (downloadFile env url path fs) \<noteq> None \<and>
            snd (downloadFile env url path fs) = fs \<and>
            (dl_NewRequest env url = None \<longrightarrow>
               fst (downloadFile env url path fs) =
                 Some (''download failed with status: '' @ resp_Status resp)) \<and>
            fst (DownloadAndExtract env url destDir fs) \<noteq> None \<and>
            snd (DownloadAndExtract env url destDir fs) =
              fs @ [MkdirAll destDir 493] @
              (if dl_MkdirAll env destDir = None
               then [Remove (Join (dl_TempDir env) ''source.zip'')] else [])) \<and>
         (resp_StatusCode resp = 200 \<longrightarrow>
            downloadFile env url path fs =
              (case dl_NewRequest env url of
                 Some err \<Rightarrow> (Some (''failed to create request: '' @ err), fs)
               | None \<Rightarrow>
                   (case dl_Create env path of
                      Some err \<Rightarrow> (Some (''failed to create file: '' @ err), fs @ [Create path])
                    | None \<Rightarrow>
                        (case dl_Copy env path of
                           Some err \<Rightarrow>
                             (Some (''failed to write file: '' @ err),
                              fs @ [Create path, Copy path (resp_Body resp)])
                         | None \<Rightarrow> (None, fs @ [Create path, Copy path (resp_Body resp)]))))) \<and>
         (resp_StatusCode resp = 200 \<and> dl_NewRequest env url = None \<and>
          dl_Create env path = None \<and> dl_Copy env path = None \<longrightarrow>
            downloadFile env url path fs =
              (None, fs @ [Create path, Copy path (resp_Body resp)])) \<and>
         (resp_StatusCode resp = 200 \<and> dl_NewRequest env url = None \<and>
          dl_MkdirAll env destDir = None \<and>
          dl_Create env (Join (dl_TempDir env) ''source.zip'') = None \<and>
          dl_Copy env (Join (dl_TempDir env) ''source.zip'') = None \<longrightarrow>
            DownloadAndExtract env url destDir fs =
              (case extractZip env (Join (dl_TempDir env) ''source.zip'') destDir
                      (fs @ [MkdirAll destDir 493,
                             Create (Join (dl_TempDir env) ''source.zip''),
                             Copy (Join (dl_TempDir env) ''source.zip'') (resp_Body resp)]) of
                 (Some err, fs3) \<Rightarrow>
                   (Some (''failed to extract source: '' @ err),
                    fs3 @ [Remove (Join (dl_TempDir env) ''source.zip'')])
               | (None, fs3) \<Rightarrow> (None, fs3 @ [Remove (Join (dl_TempDir env) ''source.zip'')]))) \<and>
         (fst (downloadFile env url path fs) = None \<longrightarrow> resp_StatusCode resp = 200)"
proof (intro conjI impI)
  assume bad: "resp_StatusCode resp \<noteq> 200"
  note d = downloadFile_bad_status [OF assms bad]
  show "fst (downloadFile env url path fs) \<noteq> None" by (simp add: d)
  show "snd (downloadFile env url path fs) = fs" by (simp add: d)
  show "fst (DownloadAndExtract env url destDir fs) \<noteq> None"
    by (simp add: d DownloadAndExtract_def Let_def split: option.splits)
  show "snd (DownloadAndExtract env url destDir fs) =
              fs @ [MkdirAll destDir 493] @
              (if dl_MkdirAll env destDir = None
               then [Remove (Join (dl_TempDir env) ''source.zip'')] else [])"
    by (simp add: d DownloadAndExtract_def Let_def split: option.splits)
  assume "dl_NewRequest env url = None"
  then show "fst (downloadFile env url path fs) =
                 Some (''download failed with status: '' @ resp_Status resp)"
    by (simp add: d)
next
  assume ok: "resp_StatusCode resp = 200"
  show "downloadFile env url path fs =
              (case dl_NewRequest env url of
                 Some err \<Rightarrow> (Some (''failed to create request: '' @ err), fs)
               | None \<Rightarrow>
                   (case dl_Create env path of
                      Some err \<Rightarrow> (Some (''failed to create file: '' @ err), fs @ [Create path])
                    | None \<Rightarrow>
                        (case dl_Copy env path of
                           Some err \<Rightarrow>
                             (Some (''failed to write file: '' @ err),
                              fs @ [Create path, Copy path (resp_Body resp)])
                         | None \<Rightarrow> (None, fs @ [Create path, Copy path (resp_Body resp)]))))"
    by (rule downloadFile_status_ok [OF assms ok])
next
  assume "resp_StatusCode resp = 200 \<and> dl_NewRequest env url = None \<and>
          dl_Create env path = None \<and> dl_Copy env path = None"
  then show "downloadFile env url path fs =
              (None, fs @ [Create path, Copy path (resp_Body resp)])"
    using downloadFile_status_ok [OF assms, of path fs] by simp
next
  let ?temp = "Join (dl_TempDir env) ''source.zip''"
  assume a: "resp_StatusCode resp = 200 \<and> dl_NewRequest env url = None \<and>
          dl_MkdirAll env destDir = None \<and> dl_Create env ?temp = None \<and>
          dl_Copy env ?temp = None"
  then have "downloadFile env url ?temp (fs @ [MkdirAll destDir 493]) =
      (None, fs @ [MkdirAll destDir 493, Create ?temp, Copy ?temp (resp_Body resp)])"
    using downloadFile_status_ok [OF assms, of ?temp "fs @ [MkdirAll destDir 493]"] by simp
  then show "DownloadAndExtract env url destDir fs =
              (case extractZip env ?temp destDir
                      (fs @ [MkdirAll destDir 493, Create ?temp, Copy ?temp (resp_Body resp)]) of
                 (Some err, fs3) \<Rightarrow>
                   (Some (''failed to extract source: '' @ err), fs3 @ [Remove ?temp])
               | (None, fs3) \<Rightarrow> (None, fs3 @ [Remove ?temp]))"
    using a by (simp add: DownloadAndExtract_def Let_def)
next
  assume n: "fst (downloadFile env url path fs) = None"
  show "resp_StatusCode resp = 200"
  proof (rule ccontr)
    assume "resp_StatusCode resp \<noteq> 200"
    from downloadFile_bad_status [OF assms this, of path fs] n show False by simp
  qed
qed

theorem download_requires_status_200_witness:
  "dl_Do demo_downloader_env ''https://bucket/source.zip'' =
     Inr \<lparr> resp_StatusCode = 204, resp_Status = ''204 No Content'', resp_Body = [] \<rparr> \<and>
   resp_StatusCode \<lparr> resp_StatusCode = 204, resp_Status = ''204 No Content'',
                     resp_Body = [] \<rparr> \<noteq> 200 \<and>
   dl_NewRequest demo_downloader_env ''https://bucket/source.zip'' = None \<and>
   downloadFile demo_downloader_env ''https://bucket/source.zip'' ''/tmp/source.zip'' [] =
     (Some ''download failed with status: 204 No Content'', []) \<and>
   fst (DownloadAndExtract demo_downloader_env ''https://bucket/source.zip'' ''/workspace'' [])
     \<noteq> None \<and>
   snd (DownloadAndExtract demo_downloader_env ''https://bucket/source.zip'' ''/workspace'' []) =
     [MkdirAll ''/workspace'' 493, Remove ''/tmp/source.zip''] \<and>
   dl_Do demo_downloader_env_200 ''https://bucket/source.zip'' =
     Inr \<lparr> resp_StatusCode = 200, resp_Status = ''200 OK'', resp_Body = ''PK'' \<rparr> \<and>
   dl_NewRequest demo_downloader_env_200 ''https://bucket/source.zip'' = None \<and>
   dl_Create demo_downloader_env_200 ''/tmp/source.zip'' = None \<and>
   dl_Copy demo_downloader_env_200 ''/tmp/source.zip'' = None \<and>
   downloadFile demo_downloader_env_200 ''https://bucket/source.zip'' ''/tmp/source.zip'' [] =
     (None, [Create ''/tmp/source.zip'', Copy ''/tmp/source.zip'' ''PK''])"
proof -
  let ?r = "\<lparr> resp_StatusCode = 204, resp_Status = ''204 No Content'', resp_Body = [] \<rparr>"
  let ?k = "\<lparr> resp_StatusCode = 200, resp_Status = ''200 OK'', resp_Body = ''PK'' \<rparr>"
  have d: "dl_Do demo_downloader_env ''https://bucket/source.zip'' = Inr ?r"
    by (simp add: demo_downloader_env_def)
  have s: "resp_StatusCode ?r \<noteq> 200" by simp
  have n: "dl_NewRequest demo_downloader_env ''https://bucket/source.zip'' = None"
    by (simp add: demo_downloader_env_def)
  have m: "dl_MkdirAll demo_downloader_env ''/workspace'' = None"
    by (simp add: demo_downloader_env_def)
  have t: "Join (dl_TempDir demo_downloader_env) ''source.zip'' = ''/tmp/source.zip''"
    by (simp add: demo_downloader_env_def Join_def Clean_def clean_element_def PathSeparator_def)
  have d2: "dl_Do demo_downloader_env_200 ''https://bucket/source.zip'' = Inr ?k"
    by (simp add: demo_downloader_env_200_def)
  have ok: "resp_StatusCode ?k = 200 \<and>
      dl_NewRequest demo_downloader_env_200 ''https://bucket/source.zip'' = None \<and>
      dl_Create demo_downloader_env_200 ''/tmp/source.zip'' = None \<and>
      dl_Copy demo_downloader_env_200 ''/tmp/source.zip'' = None"
    by (simp add: demo_downloader_env_200_def demo_downloader_env_def)
  note inst =
    download_requires_status_200 [OF d, of "''/tmp/source.zip''" "[]" "''/workspace''"]
  note inst2 =
    download_requires_status_200 [OF d2, of "''/tmp/source.zip''" "[]" "''/workspace''"]
  have bad: "downloadFile demo_downloader_env ''https://bucket/source.zip'' ''/tmp/source.zip'' [] =
     (Some ''download failed with status: 204 No Content'', [])"
    using inst s n by (simp add: prod_eq_iff)
  have fails: "fst (DownloadAndExtract demo_downloader_env ''https://bucket/source.zip''
                      ''/workspace'' []) \<noteq> None"
    using inst s by blast
  have ops: "snd (DownloadAndExtract demo_downloader_env ''https://bucket/source.zip''
                    ''/workspace'' []) =
     [MkdirAll ''/workspace'' 493, Remove ''/tmp/source.zip'']"
    using inst s m t by simp
  have good: "downloadFile demo_downloader_env_200 ''https://bucket/source.zip''
                ''/tmp/source.zip'' [] =
     (None, [Create ''/tmp/source.zip'', Copy ''/tmp/source.zip'' ''PK''])"
    using inst2 ok by simp
  show ?thesis using d s n bad fails ops d2 ok good by simp
qed

text \<open>
  Claim C2. An archive with an entry whose joined and cleaned destination path is not
  lexically within the destination directory must make \<open>extractZip\<close> fail, with
  nothing written outside the root. The check of \<open>extractFile\<close> compares strings,
  and for the destination directory \<open>..\<close> the entry \<open>../evil\<close> passes it: the
  cleaned destination is \<open>../../evil\<close>, which starts with \<open>../\<close> and is not
  within \<open>..\<close>; \<open>extractZip\<close> returns no error after creating and writing that
  file.
\<close>

theorem extractZip_relative_parent_root:
  "extractZip demo_downloader_env ''/tmp/source.zip'' ''..'' [] =
     (None, [MkdirAll ''../..'' 493, OpenFile ''../../evil'' 420, Copy ''../../evil'' ''x'']) \<and>
   Join ''..'' ''../evil'' = ''../../evil'' \<and>
   \<not> lexically_within (Clean ''..'') (Join ''..'' ''../evil'')"
  by (simp add: extractZip_def extractFile_def demo_downloader_env_def Join_def Clean_def Dir_def
        clean_element_def PathSeparator_def HasPrefix_def lexically_within_def path_elements_def
        is_rooted_def Let_def)

subsection \<open>The path check for rooted destination directories\<close>

lemma elements_not_Nil: "elements p \<noteq> []"
  by (induction p) (auto split: list.splits)

lemma elements_no_separator: "e \<in> set (elements p) \<Longrightarrow> PathSeparator \<notin> set e"
  by (induction p arbitrary: e) (auto split: list.splits if_splits)

lemma elements_append:
  "elements (a @ PathSeparator # b) = elements a @ elements b"
  by (induction a) (auto split: list.splits simp: elements_not_Nil)

lemma elements_no_separator_id: "PathSeparator \<notin> set e \<Longrightarrow> elements e = [e]"
  by (induction e) (auto split: list.splits)

lemma elements_join:
  "\<forall>e \<in> set out. PathSeparator \<notin> set e \<Longrightarrow> out \<noteq> [] \<Longrightarrow> elements (join_elements out) = out"
  by (induction out rule: join_elements.induct)
     (auto simp: elements_append elements_no_separator_id)

lemma clean_element_proper:
  assumes "\<forall>x \<in> set out. proper x" "PathSeparator \<notin> set e"
  shows "\<forall>x \<in> set (clean_element True out e). proper x"
  using assms by (auto simp: clean_element_def proper_def dest: in_set_butlastD)

lemma clean_fold_proper:
  "\<forall>x \<in> set out. proper x \<Longrightarrow> \<forall>e \<in> set es. PathSeparator \<notin> set e \<Longrightarrow>
   \<forall>x \<in> set (foldl (clean_element True) out es). proper x"
proof (induction es arbitrary: out)
  case Nil
  then show ?case by simp
next
  case (Cons e es)
  have "\<forall>x \<in> set (clean_element True out e). proper x"
    using Cons.prems by (intro clean_element_proper) auto
  then show ?case using Cons by simp
qed

text \<open>On elements that are empty or proper, cleaning keeps the proper ones.\<close>

lemma clean_fold_append:
  "\<forall>e \<in> set es. e = [] \<or> proper e \<Longrightarrow>
   foldl (clean_element rooted) out es = out @ filter (\<lambda>e. e \<noteq> []) es"
  by (induction es arbitrary: out) (auto simp: clean_element_def proper_def)


lemma Clean_rooted:
  "is_rooted p \<Longrightarrow>
   Clean p = PathSeparator # join_elements (foldl (clean_element True) [] (elements p))"
  by (auto simp: Clean_def is_rooted_def Let_def)

lemma cleaned_proper:
  "\<forall>x \<in> set (foldl (clean_element True) [] (elements p)). proper x"
  by (rule clean_fold_proper) (auto dest: elements_no_separator)

lemma elements_rooted_join:
  assumes "\<forall>x \<in> set out. proper x"
  shows "elements (PathSeparator # join_elements out) = [] # (if out = [] then [[]] else out)"
  using assms elements_join [of out] by (auto simp: proper_def)

lemma path_elements_rooted_join:
  assumes "\<forall>x \<in> set out. proper x"
  shows "path_elements (PathSeparator # join_elements out) = out"
proof -
  have "filter (\<lambda>e. e \<noteq> [] \<and> e \<noteq> ''.'') out = out"
    using assms by (auto simp: proper_def intro: filter_True)
  then show ?thesis
    unfolding path_elements_def elements_rooted_join [OF assms] by auto
qed

lemma path_elements_Clean_rooted:
  "is_rooted p \<Longrightarrow> path_elements (Clean p) = foldl (clean_element True) [] (elements p)"
  by (simp add: Clean_rooted path_elements_rooted_join cleaned_proper)

lemma elements_Clean_rooted:
  assumes "is_rooted p" "e \<in> set (elements (Clean p))"
  shows "e = [] \<or> proper e"
proof -
  let ?out = "foldl (clean_element True) [] (elements p)"
  have "elements (Clean p) = [] # (if ?out = [] then [[]] else ?out)"
    unfolding Clean_rooted [OF assms(1)] by (rule elements_rooted_join [OF cleaned_proper])
  with assms(2) cleaned_proper [of p] show ?thesis by (auto split: if_splits)
qed

lemma is_rooted_Clean: "is_rooted p \<Longrightarrow> is_rooted (Clean p)"
  by (simp add: Clean_rooted) (simp add: is_rooted_def)

lemma no_dotdot_Clean_rooted: "is_rooted p \<Longrightarrow> ''..'' \<notin> set (path_elements (Clean p))"
  using cleaned_proper [of p] by (auto simp: path_elements_Clean_rooted proper_def)

lemma path_elements_append:
  "path_elements (a @ PathSeparator # b) = path_elements a @ path_elements b"
  by (simp add: path_elements_def elements_append)

text \<open>
  For a rooted destination directory, an entry that passes the check of \<open>extractFile\<close>
  has its destination lexically within the cleaned destination directory.
\<close>

lemma checked_path_within:
  assumes "is_rooted destDir"
      and "HasPrefix (Join destDir name) (Clean destDir @ [PathSeparator])"
  shows "lexically_within (Clean destDir) (Join destDir name)"
proof -
  from assms(1) have ne: "destDir \<noteq> []" and r: "is_rooted (destDir @ PathSeparator # name)"
    by (auto simp: is_rooted_def)
  have j: "Join destDir name = Clean (destDir @ PathSeparator # name)"
    using ne by (simp add: Join_def)
  from assms(2) obtain R where R: "Join destDir name = Clean destDir @ PathSeparator # R"
    by (auto simp: HasPrefix_def prefix_def)
  have pe: "path_elements (Join destDir name) = path_elements (Clean destDir) @ path_elements R"
    unfolding R by (rule path_elements_append)
  have "''..'' \<notin> set (path_elements (Join destDir name))"
    unfolding j using r by (rule no_dotdot_Clean_rooted)
  then have "''..'' \<notin> set (path_elements R)" using pe by simp
  moreover have "is_rooted (Clean destDir)" "is_rooted (Join destDir name)"
    using assms(1) r by (simp_all add: j is_rooted_Clean)
  ultimately show ?thesis by (simp add: lexically_within_def pe)
qed


text \<open>The argument that \<open>Dir\<close> cleans: the path up to and including its last separator.\<close>

lemma up_to_last_separator:
  assumes "PathSeparator \<in> set p"
  shows "\<exists>q t. p = q @ PathSeparator # t \<and> PathSeparator \<notin> set t \<and>
               rev (dropWhile (\<lambda>c. c \<noteq> PathSeparator) (rev p)) = q @ [PathSeparator]"
proof -
  from split_list_last [OF assms] obtain q t
    where p: "p = q @ PathSeparator # t" and t: "PathSeparator \<notin> set t" by blast
  have "dropWhile (\<lambda>c. c \<noteq> PathSeparator) (rev t @ PathSeparator # rev q) = PathSeparator # rev q"
    using t by (auto simp: dropWhile_append3)
  then have "rev (dropWhile (\<lambda>c. c \<noteq> PathSeparator) (rev p)) = q @ [PathSeparator]"
    by (simp add: p)
  with p t show ?thesis by blast
qed

lemma checked_parent_within:
  assumes "is_rooted destDir"
      and "HasPrefix (Join destDir name) (Clean destDir @ [PathSeparator])"
  shows "lexically_within (Clean destDir) (Dir (Join destDir name))"
proof -
  let ?D = "Clean destDir" and ?P = "Join destDir name"
  from assms(1) have ne: "destDir \<noteq> []" and r: "is_rooted (destDir @ PathSeparator # name)"
    by (auto simp: is_rooted_def)
  have j: "?P = Clean (destDir @ PathSeparator # name)"
    using ne by (simp add: Join_def)
  have rootedP: "is_rooted ?P" and rootedD: "is_rooted ?D"
    using assms(1) r by (simp_all add: j is_rooted_Clean)
  from assms(2) obtain R where R: "?P = ?D @ PathSeparator # R"
    by (auto simp: HasPrefix_def prefix_def)
  then have "PathSeparator \<in> set ?P" by simp
  from up_to_last_separator [OF this] obtain q t
    where q: "?P = q @ PathSeparator # t" "PathSeparator \<notin> set t"
      and d: "rev (dropWhile (\<lambda>c. c \<noteq> PathSeparator) (rev ?P)) = q @ [PathSeparator]"
    by blast
  have rootedq: "is_rooted (q @ [PathSeparator])"
    using rootedP q(1) by (cases q) (auto simp: is_rooted_def)
  have dir: "Dir ?P = Clean (q @ [PathSeparator])"
    by (simp add: Dir_def d)
  \<comment> \<open>the elements of the destination, of its parent and of the root\<close>
  have eP: "elements ?P = elements q @ [t]"
    using q by (metis elements_append elements_no_separator_id)
  have eq: "elements (q @ [PathSeparator]) = elements q @ [[]]"
    using elements_append [of q "[]"] by simp
  have ePD: "elements ?P = elements ?D @ elements R"
    using R by (metis elements_append)
  have q_eq: "elements q = elements ?D @ butlast (elements R)"
  proof -
    have "elements q = butlast (elements ?P)" by (simp add: eP)
    also have "\<dots> = elements ?D @ butlast (elements R)"
      by (simp add: ePD butlast_append elements_not_Nil)
    finally show ?thesis .
  qed
  have okP: "\<forall>e \<in> set (elements ?P). e = [] \<or> proper e"
    unfolding j using elements_Clean_rooted [OF r] by blast
  have okq: "\<forall>e \<in> set (elements q). e = [] \<or> proper e"
    using okP by (simp add: eP)
  have okD: "\<forall>e \<in> set (elements ?D). e = [] \<or> proper e"
    using okP by (simp add: ePD)
  have parent: "path_elements (Dir ?P) = filter (\<lambda>e. e \<noteq> []) (elements q)"
    unfolding dir path_elements_Clean_rooted [OF rootedq] eq
    using clean_fold_append [OF okq, of True "[]"] by (simp add: clean_element_def)
  have root: "path_elements ?D = filter (\<lambda>e. e \<noteq> []) (elements ?D)"
    unfolding path_elements_def using okD by (intro filter_cong) (auto simp: proper_def)
  have parts: "path_elements (Dir ?P) =
      path_elements ?D @ filter (\<lambda>e. e \<noteq> []) (butlast (elements R))"
    by (simp add: parent root q_eq)
  have "''..'' \<notin> set (path_elements (Dir ?P))"
    unfolding dir using rootedq by (rule no_dotdot_Clean_rooted)
  then have "''..'' \<notin> set (filter (\<lambda>e. e \<noteq> []) (butlast (elements R)))"
    unfolding parts by simp
  moreover have "is_rooted (Dir ?P)"
    unfolding dir using rootedq by (rule is_rooted_Clean)
  ultimately show ?thesis
    using rootedD by (simp add: lexically_within_def parts)
qed

text \<open>
  Every file-system call that \<open>extractFile\<close> makes for a rooted destination directory
  acts on a path within it, and an entry whose destination is not within it is refused.
\<close>

lemma extractFile_rooted:
  assumes "is_rooted destDir"
  shows "\<forall>op \<in> set (snd (extractFile env f destDir fs)).
           op \<in> set fs \<or> lexically_within (Clean destDir) (op_path op)"
    and "\<not> lexically_within (Clean destDir) (Join destDir (zip_Name f)) \<Longrightarrow>
         extractFile env f destDir fs = (Some (''invalid file path: '' @ zip_Name f), fs)"
proof -
  show "\<not> lexically_within (Clean destDir) (Join destDir (zip_Name f)) \<Longrightarrow>
         extractFile env f destDir fs = (Some (''invalid file path: '' @ zip_Name f), fs)"
    using checked_path_within [OF assms] by (auto simp: extractFile_def Let_def)
  show "\<forall>op \<in> set (snd (extractFile env f destDir fs)).
           op \<in> set fs \<or> lexically_within (Clean destDir) (op_path op)"
  proof (cases "HasPrefix (Join destDir (zip_Name f)) (Clean destDir @ [PathSeparator])")
    case False
    then show ?thesis by (simp add: extractFile_def Let_def)
  next
    case True
    note w = checked_path_within [OF assms True] checked_parent_within [OF assms True]
    show ?thesis
      using True w by (auto simp: extractFile_def Let_def split: option.splits)
  qed
qed

lemma extractFiles_rooted:
  assumes "is_rooted destDir"
  shows "(\<forall>op \<in> set (snd (extractFiles env entries destDir fs)).
            op \<in> set fs \<or> lexically_within (Clean destDir) (op_path op)) \<and>
         ((\<exists>f \<in> set entries. \<not> lexically_within (Clean destDir) (Join destDir (zip_Name f))) \<longrightarrow>
            fst (extractFiles env entries destDir fs) \<noteq> None)"
proof (induction entries arbitrary: fs)
  case Nil
  then show ?case by simp
next
  case (Cons f entries)
  obtain r fs' where e: "extractFile env f destDir fs = (r, fs')"
    by (cases "extractFile env f destDir fs")
  have ops: "\<forall>op \<in> set fs'. op \<in> set fs \<or> lexically_within (Clean destDir) (op_path op)"
    using extractFile_rooted(1) [OF assms, of env f fs] e by simp
  show ?case
  proof (cases r)
    case (Some err)
    then show ?thesis using e ops by simp
  next
    case None
    have "lexically_within (Clean destDir) (Join destDir (zip_Name f))"
      using extractFile_rooted(2) [OF assms, of f env fs] e None by auto
    then show ?thesis
      using e None ops Cons.IH [of fs'] by auto
  qed
qed

text \<open>
  For a rooted destination directory the safety property of the specification holds:
  an archive with an entry that escapes makes \<open>extractZip\<close> fail, and no file-system
  call of the extraction acts outside the destination directory.
\<close>

lemma extractZip_rooted:
  assumes "is_rooted destDir"
  shows "\<forall>op \<in> set (snd (extractZip env zipPath destDir fs)).
            op \<in> set fs \<or> lexically_within (Clean destDir) (op_path op)"
    and "dl_OpenReader env zipPath = Inr entries \<Longrightarrow>
         \<exists>f \<in> set entries. \<not> lexically_within (Clean destDir) (Join destDir (zip_Name f)) \<Longrightarrow>
         fst (extractZip env zipPath destDir fs) \<noteq> None"
  using extractFiles_rooted [OF assms]
  by (auto simp: extractZip_def split: sum.splits)

subsection \<open>Parallel execution\<close>

lemma worker_eq: "worker env dir scs res idx = res[idx := Some (worker_result env dir scs idx)]"
  by (simp add: worker_def worker_result_def Let_def split: prod.splits)

lemma workers_nth:
  "i < length res \<Longrightarrow>
   foldl (worker env dir scs) res order ! i =
     (if i \<in> set order then Some (worker_result env dir scs i) else res ! i)"
  by (induction order arbitrary: res) (auto simp: worker_eq nth_list_update)

lemma workers_length: "length (foldl (worker env dir scs) res order) = length res"
  by (induction order arbitrary: res) (auto simp: worker_eq)

text \<open>Whatever the order in which the workers finish, every slot holds its worker's result.\<close>

lemma runScannersParallel_eq:
  "runScannersParallel env scs dir =
     map (\<lambda>i. Some (worker_result env dir scs i)) [0..<length scs]"
  by (rule nth_equalityI) (simp_all add: runScannersParallel_def Let_def workers_length workers_nth)

text \<open>
  Claim C3. For every list of N scanners given to \<open>runScannersParallel\<close>, the returned
  sequence has length N, and for every index i below N the slot i holds a result whose
  \<open>ScannerName\<close> is the name of scanner i and whose scan type is the scan type of
  scanner i.
\<close>

theorem runScannersParallel_index_correspondence:
  "length (runScannersParallel env scannerList sourceDir) = length scannerList \<and>
   (\<forall>i < length scannerList.
      \<exists>r. runScannersParallel env scannerList sourceDir ! i = Some r \<and>
          ScannerName r = Name (scannerList ! i) \<and>
          Result_ScanType r = Scanner_ScanType (scannerList ! i))"
  by (simp add: runScannersParallel_eq worker_result_def)

theorem runScannersParallel_index_correspondence_witness:
  "length (runScannersParallel demo_env [TrivyScanner, SemgrepScanner] ''/workspace'') = 2 \<and>
   (1::nat) < length [TrivyScanner, SemgrepScanner] \<and>
   (\<exists>r. runScannersParallel demo_env [TrivyScanner, SemgrepScanner] ''/workspace'' ! 1 = Some r \<and>
        ScannerName r = ''semgrep'' \<and> Result_ScanType r = SAST)"
proof -
  note inst = runScannersParallel_index_correspondence
                [of demo_env "[TrivyScanner, SemgrepScanner]" "''/workspace''"]
  have len: "length (runScannersParallel demo_env [TrivyScanner, SemgrepScanner] ''/workspace'') = 2"
    using inst by simp
  have lt: "(1::nat) < length [TrivyScanner, SemgrepScanner]" by simp
  from inst lt
  have "\<exists>r. runScannersParallel demo_env [TrivyScanner, SemgrepScanner] ''/workspace'' ! 1 = Some r \<and>
            ScannerName r = Name ([TrivyScanner, SemgrepScanner] ! 1) \<and>
            Result_ScanType r = Scanner_ScanType ([TrivyScanner, SemgrepScanner] ! 1)"
    by blast
  then show ?thesis using len lt by simp
qed

text \<open>
  The result does not depend on the order of completion: any sequence of stores that
  covers every index leaves the slots in the same state.
\<close>

lemma workers_any_order:
  assumes "set order = {0..<length scs}"
  shows "foldl (worker env dir scs) (replicate (length scs) None) order =
           runScannersParallel env scs dir"
  by (rule nth_equalityI)
     (simp_all add: runScannersParallel_eq workers_length workers_nth assms)

subsection \<open>The client and the steps of the job\<close>

lemma UpdateScanStatus_world:
  "snd (UpdateScanStatus env scanID status errorMsg w) =
     w\<lparr>rpcs := rpcs w @ [status_request scanID status errorMsg]\<rparr>"
  by (simp add: UpdateScanStatus_def invoke_def status_request_def Let_def split: option.splits)

lemma UpdateFindingsCount_world:
  "snd (UpdateFindingsCount env scanID count w) =
     w\<lparr>rpcs := rpcs w @ [count_request scanID count]\<rparr>"
  by (simp add: UpdateFindingsCount_def invoke_def count_request_def Let_def split: option.splits)

lemma CreateFindings_nonempty:
  "findings \<noteq> [] \<Longrightarrow>
   CreateFindings env scanID findings w =
     (map_option (\<lambda>err. ''failed to create findings: '' @ err)
        (env_rpc env (length (rpcs w)) (CreateFindingsRPC scanID findings)),
      w\<lparr>rpcs := rpcs w @ [CreateFindingsRPC scanID findings]\<rparr>)"
  by (simp add: CreateFindings_def invoke_def split: option.splits)

lemma collect_all_Some:
  "collect (map Some rs) (allFindings, scanErrors) =
     Some (allFindings @ succeeded_findings (map Some rs),
           scanErrors @ map adapter_message (failed_adapters (map Some rs)))"
  by (induction rs arbitrary: allFindings scanErrors)
     (auto simp: adapter_message_def split: option.splits)

lemma scan_results_all_Some:
  "\<exists>rs. scan_results env cfg = map Some rs \<and>
        length rs = length (initializeScanners env (ScanTypes cfg))"
proof -
  let ?scs = "initializeScanners env (ScanTypes cfg)"
  let ?rs = "map (worker_result env (WorkDir cfg) ?scs) [0..<length ?scs]"
  have "scan_results env cfg = map Some ?rs"
    by (simp add: scan_results_def runScannersParallel_eq)
  moreover have "length ?rs = length ?scs" by simp
  ultimately show ?thesis by blast
qed

lemma collect_scan_results:
  "collect (scan_results env cfg) ([], []) =
     Some (succeeded_findings (scan_results env cfg),
           map adapter_message (failed_adapters (scan_results env cfg)))"
proof -
  obtain rs where "scan_results env cfg = map Some rs"
    using scan_results_all_Some by blast
  then show ?thesis using collect_all_Some [of rs "[]" "[]"] by simp
qed

lemma length_scan_results:
  "length (scan_results env cfg) = length (initializeScanners env (ScanTypes cfg))"
  using scan_results_all_Some [of env cfg] by auto

lemma runScan_scan_eq:
  "runScan_scan env cfg w =
     (if initializeScanners env (ScanTypes cfg) = [] then
        (Return (Some ''no scanners available''),
         w\<lparr>rpcs := rpcs w @ [status_request (ScanID cfg) FAILED
                                ''No scanners available for requested scan types'']\<rparr>)
      else if all_errors env cfg (length (rpcs w)) \<noteq> [] then
        (Return (Some (''scan had errors: '' @ format_strings (all_errors env cfg (length (rpcs w))))),
         w\<lparr>rpcs := rpcs w @ upload_calls env cfg @
              [status_request (ScanID cfg) FAILED
                 (''Scan completed with errors: '' @
                  format_strings (all_errors env cfg (length (rpcs w))))]\<rparr>)
      else
        (Return None,
         w\<lparr>rpcs := rpcs w @ upload_calls env cfg @ [status_request (ScanID cfg) COMPLETED []]\<rparr>))"
  unfolding runScan_scan_def Let_def scan_results_def [symmetric] collect_scan_results
  by (simp add: UpdateScanStatus_world UpdateFindingsCount_world CreateFindings_nonempty
        all_errors_def upload_errors_def upload_calls_def split: option.splits)

lemma on_files_simps:
  "fst (on_files f w) = fst (f (files w))"
  "rpcs (snd (on_files f w)) = rpcs w"
  "files (snd (on_files f w)) = snd (f (files w))"
  by (simp_all add: on_files_def split: prod.splits)

text \<open>The step that prepares the source, with its two file-system branches merged.\<close>

lemma runScan_source_eq:
  "runScan_source env cfg w =
     (if SourceDownloadURL cfg \<noteq> [] \<or> GitURL cfg \<noteq> [] then
        (let p = on_files
                   (if SourceDownloadURL cfg \<noteq> [] then
                      DownloadAndExtract (env_downloader env) (SourceDownloadURL cfg) (WorkDir cfg)
                    else CloneGit env (GitURL cfg) (GitBranch cfg) (GitCommit cfg) (WorkDir cfg)) w
         in case fst p of
              None \<Rightarrow> (None, snd p)
            | Some err \<Rightarrow>
                (Some ((if SourceDownloadURL cfg \<noteq> [] then ''failed to download source: ''
                        else ''failed to clone repository: '') @ err),
                 snd (UpdateScanStatus env (ScanID cfg) FAILED
                        ((if SourceDownloadURL cfg \<noteq> [] then ''Failed to download source: ''
                          else ''Failed to clone repository: '') @ err) (snd p))))
      else
        (Some ''No source specified: neither SOURCE_DOWNLOAD_URL nor REPOSITORY_URL provided'',
         snd (UpdateScanStatus env (ScanID cfg) FAILED
                ''No source specified: neither SOURCE_DOWNLOAD_URL nor REPOSITORY_URL provided'' w)))"
  by (cases "on_files (DownloadAndExtract (env_downloader env) (SourceDownloadURL cfg)
                          (WorkDir cfg)) w";
      cases "on_files (CloneGit env (GitURL cfg) (GitBranch cfg) (GitCommit cfg) (WorkDir cfg)) w")
     (simp add: runScan_source_def Let_def split: option.splits)

lemma runScan_source_ok:
  "fst (runScan_source env cfg w) = None \<Longrightarrow> rpcs (snd (runScan_source env cfg w)) = rpcs w"
  unfolding runScan_source_eq
  by (simp add: Let_def on_files_simps split: option.splits if_splits)

lemma runScan_source_failed:
  "fst (runScan_source env cfg w) = Some err \<Longrightarrow>
   \<exists>msg. rpcs (snd (runScan_source env cfg w)) = rpcs w @ [status_request (ScanID cfg) FAILED msg]"
  unfolding runScan_source_eq
  by (auto simp: Let_def on_files_simps UpdateScanStatus_world split: option.splits if_splits)

text \<open>The result of preparing the source does not depend on the calls made before.\<close>

lemma runScan_source_fst:
  "files w = files w' \<Longrightarrow> fst (runScan_source env cfg w) = fst (runScan_source env cfg w')"
  unfolding runScan_source_eq
  by (simp add: Let_def on_files_simps split: option.splits)
lemma status_updates_append:
  "status_updates (xs @ ys) = status_updates xs @ status_updates ys"
  by (induction xs rule: status_updates.induct) (auto split: option.splits)

lemma status_updates_single:
  "status_updates [status_request scanID status msg] = [status]"
  "status_updates [count_request scanID count] = []"
  "status_updates [CreateFindingsRPC scanID findings] = []"
  by (simp_all add: status_request_def count_request_def)

lemma status_updates_upload_calls: "status_updates (upload_calls env cfg) = []"
  by (simp add: upload_calls_def count_request_def)

text \<open>The calls of a run: nothing, or the RUNNING update, then at most the delivery
  calls, then one terminal update.\<close>

lemma runScan_rpcs:
  "rpcs (snd (runScan env cfg initial_world)) = [] \<or>
   (\<exists>msg. rpcs (snd (runScan env cfg initial_world)) =
      [status_request (ScanID cfg) RUNNING [], status_request (ScanID cfg) FAILED msg]) \<or>
   (\<exists>msg. rpcs (snd (runScan env cfg initial_world)) =
      status_request (ScanID cfg) RUNNING [] # upload_calls env cfg @
        [status_request (ScanID cfg) FAILED msg]) \<or>
   rpcs (snd (runScan env cfg initial_world)) =
      status_request (ScanID cfg) RUNNING [] # upload_calls env cfg @
        [status_request (ScanID cfg) COMPLETED []]"
proof (cases "NewClient env (OrchestratorEndpoint cfg)")
  case (Some err)
  then show ?thesis by (simp add: runScan_def initial_world_def)
next
  case None
  let ?w1 = "snd (UpdateScanStatus env (ScanID cfg) RUNNING [] initial_world)"
  have w1: "rpcs ?w1 = [status_request (ScanID cfg) RUNNING []]"
    by (simp add: UpdateScanStatus_world initial_world_def)
  obtain r w2 where src: "runScan_source env cfg ?w1 = (r, w2)" by (cases "runScan_source env cfg ?w1")
  show ?thesis
  proof (cases r)
    case (Some err)
    with src have "fst (runScan_source env cfg ?w1) = Some err" by simp
    from runScan_source_failed [OF this] src w1
    have "\<exists>msg. rpcs w2 = [status_request (ScanID cfg) RUNNING [], status_request (ScanID cfg) FAILED msg]"
      by simp
    moreover have "runScan env cfg initial_world = (Return (Some err), w2)"
      using None src Some by (simp add: runScan_def Let_def)
    ultimately show ?thesis by simp
  next
    case rNone: None
    with src have "fst (runScan_source env cfg ?w1) = None" by simp
    from runScan_source_ok [OF this] src w1
    have w2: "rpcs w2 = [status_request (ScanID cfg) RUNNING []]" by simp
    have run: "runScan env cfg initial_world = runScan_scan env cfg w2"
      using None src rNone by (simp add: runScan_def Let_def)
    consider (none) "initializeScanners env (ScanTypes cfg) = []"
      | (errors) "initializeScanners env (ScanTypes cfg) \<noteq> []" "all_errors env cfg (Suc 0) \<noteq> []"
      | (clean) "initializeScanners env (ScanTypes cfg) \<noteq> []" "all_errors env cfg (Suc 0) = []"
      by blast
    then show ?thesis
    proof cases
      case none
      then have "rpcs (snd (runScan env cfg initial_world)) =
          [status_request (ScanID cfg) RUNNING [],
           status_request (ScanID cfg) FAILED ''No scanners available for requested scan types'']"
        unfolding run runScan_scan_eq using w2 by simp
      then show ?thesis by blast
    next
      case errors
      then have "rpcs (snd (runScan env cfg initial_world)) =
          status_request (ScanID cfg) RUNNING [] # upload_calls env cfg @
            [status_request (ScanID cfg) FAILED
               (''Scan completed with errors: '' @ format_strings (all_errors env cfg (Suc 0)))]"
        unfolding run runScan_scan_eq using w2 by simp
      then show ?thesis by blast
    next
      case clean
      then have "rpcs (snd (runScan env cfg initial_world)) =
          status_request (ScanID cfg) RUNNING [] # upload_calls env cfg @
            [status_request (ScanID cfg) COMPLETED []]"
        unfolding run runScan_scan_eq using w2 by simp
      then show ?thesis by blast
    qed
  qed
qed


text \<open>No slot is left unwritten, so the loop over the results never panics.\<close>

lemma runScan_never_panics: "fst (runScan env cfg w) \<noteq> Panic"
proof (cases "NewClient env (OrchestratorEndpoint cfg)")
  case (Some err)
  then show ?thesis by (simp add: runScan_def)
next
  case None
  let ?w1 = "snd (UpdateScanStatus env (ScanID cfg) RUNNING [] w)"
  obtain r w2 where src: "runScan_source env cfg ?w1 = (r, w2)"
    by (cases "runScan_source env cfg ?w1")
  have "fst (runScan_scan env cfg w2) \<noteq> Panic"
    unfolding runScan_scan_eq by simp
  then show ?thesis
    using None src by (cases r) (simp_all add: runScan_def Let_def)
qed

text \<open>A run that reaches the adapters and has at least one of them.\<close>

lemma runScan_reached:
  assumes "adapters_reached env cfg" "initializeScanners env (ScanTypes cfg) \<noteq> []"
  shows "runScan env cfg initial_world =
           runScan_scan env cfg
             (snd (runScan_source env cfg
                (snd (UpdateScanStatus env (ScanID cfg) RUNNING [] initial_world))))"
    and "fst (runScan env cfg initial_world) =
           (if all_errors env cfg (Suc 0) \<noteq> []
            then Return (Some (''scan had errors: '' @ format_strings (all_errors env cfg (Suc 0))))
            else Return None)"
    and "rpcs (snd (runScan env cfg initial_world)) =
           status_request (ScanID cfg) RUNNING [] # upload_calls env cfg @
           [if all_errors env cfg (Suc 0) \<noteq> []
            then status_request (ScanID cfg) FAILED
                   (''Scan completed with errors: '' @ format_strings (all_errors env cfg (Suc 0)))
            else status_request (ScanID cfg) COMPLETED []]"
proof -
  let ?w1 = "snd (UpdateScanStatus env (ScanID cfg) RUNNING [] initial_world)"
  let ?w2 = "snd (runScan_source env cfg ?w1)"
  from assms(1) have c: "NewClient env (OrchestratorEndpoint cfg) = None"
    and s: "fst (runScan_source env cfg ?w1) = None"
    by (simp_all add: adapters_reached_def)
  have w2: "rpcs ?w2 = [status_request (ScanID cfg) RUNNING []]"
    using runScan_source_ok [OF s] by (simp add: UpdateScanStatus_world initial_world_def)
  show run: "runScan env cfg initial_world = runScan_scan env cfg ?w2"
    using c s by (cases "runScan_source env cfg ?w1") (simp add: runScan_def Let_def)
  show "fst (runScan env cfg initial_world) =
           (if all_errors env cfg (Suc 0) \<noteq> []
            then Return (Some (''scan had errors: '' @ format_strings (all_errors env cfg (Suc 0))))
            else Return None)"
    unfolding run runScan_scan_eq using assms(2) w2 by simp
  show "rpcs (snd (runScan env cfg initial_world)) =
           status_request (ScanID cfg) RUNNING [] # upload_calls env cfg @
           [if all_errors env cfg (Suc 0) \<noteq> []
            then status_request (ScanID cfg) FAILED
                   (''Scan completed with errors: '' @ format_strings (all_errors env cfg (Suc 0)))
            else status_request (ScanID cfg) COMPLETED []]"
    unfolding run runScan_scan_eq using assms(2) w2 by simp
qed

text \<open>The concrete runs.\<close>

lemma demo_downloader_ok:
  "fst (DownloadAndExtract (env_downloader demo_env) ''https://bucket/source.zip'' ''/workspace'' fs)
     = None"
  by (simp add: demo_env_def demo_downloader_env_def DownloadAndExtract_def downloadFile_def
        extractZip_def StatusOK_def Let_def)

lemma demo_adapters_reached:
  "adapters_reached demo_env demo_cfg"
  "adapters_reached demo_env_upload_fails demo_cfg_sca"
  "adapters_reached demo_env_clean demo_cfg_sca"
  using demo_downloader_ok
  by (simp_all add: adapters_reached_def runScan_source_eq on_files_simps NewClient_def
        demo_env_upload_fails_def demo_env_clean_def demo_cfg_sca_def demo_cfg_def Let_def,
      simp_all add: demo_env_def)

lemma demo_scanners:
  "initializeScanners demo_env (ScanTypes demo_cfg) = [TrivyScanner, SemgrepScanner]"
  "initializeScanners demo_env_upload_fails (ScanTypes demo_cfg_sca) = [TrivyScanner]"
  "initializeScanners demo_env_clean (ScanTypes demo_cfg_sca) = [TrivyScanner]"
  by (simp_all add: initializeScanners_def initializeScanners_case_def IsAvailable_def
        demo_env_upload_fails_def demo_env_clean_def demo_cfg_sca_def demo_cfg_def demo_env_def)

lemma demo_scan_results:
  "scan_results demo_env demo_cfg =
     [Some \<lparr> Findings = [demo_finding], Result_ScanType = SCA, ScannerName = ''trivy'',
             Error = None \<rparr>,
      Some \<lparr> Findings = [], Result_ScanType = SAST, ScannerName = ''semgrep'',
             Error = Some ''failed to parse semgrep results: failed to read results: no such file'' \<rparr>]"
  "scan_results demo_env_upload_fails demo_cfg_sca =
     [Some \<lparr> Findings = [demo_finding], Result_ScanType = SCA, ScannerName = ''trivy'',
             Error = None \<rparr>]"
  "scan_results demo_env_clean demo_cfg_sca =
     [Some \<lparr> Findings = [], Result_ScanType = SCA, ScannerName = ''trivy'', Error = None \<rparr>]"
  by (simp_all add: scan_results_def demo_scanners runScannersParallel_eq worker_result_def
        upt_rec [of 0] upt_rec [of 1],
      simp_all add: demo_env_upload_fails_def demo_env_clean_def demo_env_def)


lemma demo_failed_adapters:
  "failed_adapters (scan_results demo_env demo_cfg) =
     [(''semgrep'', ''failed to parse semgrep results: failed to read results: no such file'')]"
  "failed_adapters (scan_results demo_env_upload_fails demo_cfg_sca) = []"
  "failed_adapters (scan_results demo_env_clean demo_cfg_sca) = []"
  by (simp_all add: demo_scan_results)

lemma demo_succeeded_findings:
  "succeeded_findings (scan_results demo_env demo_cfg) = [demo_finding]"
  "succeeded_findings (scan_results demo_env_upload_fails demo_cfg_sca) = [demo_finding]"
  "succeeded_findings (scan_results demo_env_clean demo_cfg_sca) = []"
  by (simp_all add: demo_scan_results)

subsection \<open>Lifecycle of the status updates\<close>

lemma runScan_status_updates:
  "status_updates (rpcs (snd (runScan env cfg initial_world))) = [] \<or>
   status_updates (rpcs (snd (runScan env cfg initial_world))) = [RUNNING, FAILED] \<or>
   status_updates (rpcs (snd (runScan env cfg initial_world))) = [RUNNING, COMPLETED]"
proof -
  have single: "\<And>s m. status_updates [status_request (ScanID cfg) s m] = [s]"
    by (simp add: status_request_def)
  have cons: "\<And>s m xs. status_updates (status_request (ScanID cfg) s m # xs) = s # status_updates xs"
    by (simp add: status_request_def)
  from runScan_rpcs [of env cfg] show ?thesis
    by (elim disjE exE)
       (simp_all add: cons single status_updates_append status_updates_upload_calls)
qed

text \<open>
  Claim C8. In every execution of \<open>runScan\<close> the sequence of status updates is
  monotonic: a terminal update is preceded by the RUNNING update, at most one terminal
  status is reported, and no RUNNING update follows a terminal one. The sequence is
  empty (the connection failed), or RUNNING followed by exactly one of FAILED and
  COMPLETED.
\<close>

theorem status_updates_monotonic:
  "monotonic (status_updates (rpcs (snd (runScan env cfg initial_world)))) \<and>
   status_updates (rpcs (snd (runScan env cfg initial_world)))
     \<in> {[], [RUNNING, FAILED], [RUNNING, COMPLETED]}"
proof -
  have "monotonic []" "monotonic [RUNNING, FAILED]" "monotonic [RUNNING, COMPLETED]"
    by (simp_all add: monotonic_def terminal_def)
  with runScan_status_updates [of env cfg] show ?thesis by auto
qed

lemma demo_rpcs:
  "rpcs (snd (runScan demo_env demo_cfg initial_world)) =
     [status_request (ScanID demo_cfg) RUNNING [],
      CreateFindingsRPC (ScanID demo_cfg) [demo_finding],
      count_request (ScanID demo_cfg) 1,
      status_request (ScanID demo_cfg) FAILED
        ''Scan completed with errors: [semgrep: failed to parse semgrep results: failed to read results: no such file]'']"
proof -
  have e: "all_errors demo_env demo_cfg (Suc 0) =
     [''semgrep: failed to parse semgrep results: failed to read results: no such file'']"
    by (simp add: all_errors_def upload_errors_def demo_failed_adapters demo_succeeded_findings
          adapter_message_def)
       (simp add: demo_env_def)
  have u: "upload_calls demo_env demo_cfg =
     [CreateFindingsRPC (ScanID demo_cfg) [demo_finding], count_request (ScanID demo_cfg) 1]"
    by (simp add: upload_calls_def demo_succeeded_findings)
  show ?thesis
    using runScan_reached(3) [OF demo_adapters_reached(1)]
    by (simp add: demo_scanners e u format_strings_def)
qed

theorem status_updates_monotonic_witness:
  "status_updates (rpcs (snd (runScan demo_env demo_cfg initial_world))) = [RUNNING, FAILED] \<and>
   monotonic [RUNNING, FAILED]"
proof -
  have s: "status_updates (rpcs (snd (runScan demo_env demo_cfg initial_world))) = [RUNNING, FAILED]"
    by (simp add: demo_rpcs status_request_def count_request_def)
  from status_updates_monotonic [of demo_env demo_cfg] show ?thesis
    unfolding s by simp
qed

subsection \<open>Delivery of findings\<close>

lemma failed_adapters_member:
  "Some r \<in> set rs \<Longrightarrow> Error r = Some err \<Longrightarrow> (ScannerName r, err) \<in> set (failed_adapters rs)"
  by (induction rs rule: failed_adapters.induct) auto

lemma set_failed_adapters:
  "(name, err) \<in> set (failed_adapters rs) \<longleftrightarrow>
     (\<exists>r. Some r \<in> set rs \<and> Error r = Some err \<and> ScannerName r = name)"
  by (induction rs rule: failed_adapters.induct) (auto split: option.splits)

lemma failed_adapters_none:
  assumes "\<And>r. Some r \<in> set rs \<Longrightarrow> Error r = None"
  shows "failed_adapters rs = []"
proof (cases "failed_adapters rs")
  case Nil
  then show ?thesis .
next
  case (Cons p ps)
  then have "(fst p, snd p) \<in> set (failed_adapters rs)" by simp
  then obtain r where "Some r \<in> set rs" "Error r = Some (snd p)"
    unfolding set_failed_adapters by blast
  with assms show ?thesis by fastforce
qed

lemma set_succeeded_findings:
  "f \<in> set (succeeded_findings rs) \<longleftrightarrow>
     (\<exists>r. Some r \<in> set rs \<and> Error r = None \<and> f \<in> set (Findings r))"
  by (induction rs rule: succeeded_findings.induct) auto

lemma join_spaces_member:
  "x \<in> set xs \<Longrightarrow> \<exists>ps ss. join_spaces xs = ps @ x @ ss"
proof (induction xs rule: join_spaces.induct)
  case 1
  then show ?case by simp
next
  case (2 s)
  then have "join_spaces [s] = [] @ x @ []" by simp
  then show ?case by blast
next
  case (3 s v va)
  show ?case
  proof (cases "x = s")
    case True
    then have "join_spaces (s # v # va) = [] @ x @ ('' '' @ join_spaces (v # va))" by simp
    then show ?thesis by blast
  next
    case False
    with 3 obtain ps ss where "join_spaces (v # va) = ps @ x @ ss" by auto
    then have "join_spaces (s # v # va) = (s @ '' '' @ ps) @ x @ ss" by simp
    then show ?thesis by blast
  qed
qed

text \<open>The name of every failed adapter occurs in the text made from the error list.\<close>

lemma failed_adapter_named:
  assumes "Some r \<in> set (scan_results env cfg)" "Error r \<noteq> None"
  shows "sublist (ScannerName r) (pre @ format_strings (all_errors env cfg n))"
proof -
  from assms(2) obtain err where err: "Error r = Some err" by auto
  have "adapter_message (ScannerName r, err) \<in> set (all_errors env cfg n)"
    using failed_adapters_member [OF assms(1) err] by (auto simp: all_errors_def)
  then obtain ps ss where
    "join_spaces (all_errors env cfg n) = ps @ adapter_message (ScannerName r, err) @ ss"
    using join_spaces_member by blast
  then have "pre @ format_strings (all_errors env cfg n) =
      (pre @ ''['' @ ps) @ ScannerName r @ ('': '' @ err @ ss @ '']'')"
    by (simp add: format_strings_def adapter_message_def)
  then show ?thesis unfolding sublist_def by blast
qed

text \<open>
  Claim C4. In every run that reaches the adapters, in which at least one adapter's
  scan returns an error and at least one adapter succeeds with a non-empty finding
  list, the calls issued are the RUNNING update, one \<open>CreateFindings\<close> call carrying
  exactly the findings of the succeeding adapters, the findings count, and the FAILED
  update whose error text contains the name of every failed adapter; \<open>runScan\<close>
  returns an error.
\<close>

theorem partial_failure_still_delivers:
  assumes "adapters_reached env cfg"
      and "\<exists>r. Some r \<in> set (scan_results env cfg) \<and> Error r \<noteq> None"
      and "\<exists>r. Some r \<in> set (scan_results env cfg) \<and> Error r = None \<and> Findings r \<noteq> []"
  shows "\<exists>msg.
           rpcs (snd (runScan env cfg initial_world)) =
             [status_request (ScanID cfg) RUNNING [],
              CreateFindingsRPC (ScanID cfg) (succeeded_findings (scan_results env cfg)),
              count_request (ScanID cfg)
                (word_of_nat (length (succeeded_findings (scan_results env cfg)))),
              status_request (ScanID cfg) FAILED msg] \<and>
           (\<forall>r. Some r \<in> set (scan_results env cfg) \<and> Error r \<noteq> None \<longrightarrow>
                sublist (ScannerName r) msg) \<and>
           (\<forall>f. f \<in> set (succeeded_findings (scan_results env cfg)) \<longleftrightarrow>
                (\<exists>r. Some r \<in> set (scan_results env cfg) \<and> Error r = None \<and>
                     f \<in> set (Findings r))) \<and>
           fst (runScan env cfg initial_world) =
             Return (Some (''scan had errors: '' @ format_strings (all_errors env cfg (Suc 0))))"
proof -
  let ?rs = "scan_results env cfg"
  let ?msg = "''Scan completed with errors: '' @ format_strings (all_errors env cfg (Suc 0))"
  from assms(2) obtain r e where r: "Some r \<in> set ?rs" "Error r = Some e" by auto
  from assms(3) obtain s where s: "Some s \<in> set ?rs" "Error s = None" "Findings s \<noteq> []" by auto
  have scs: "initializeScanners env (ScanTypes cfg) \<noteq> []"
    using r(1) length_scan_results [of env cfg] by auto
  from s obtain f where "f \<in> set (Findings s)" by (cases "Findings s") auto
  with s have "f \<in> set (succeeded_findings ?rs)" by (auto simp: set_succeeded_findings)
  then have found: "succeeded_findings ?rs \<noteq> []" by auto
  have errs: "all_errors env cfg (Suc 0) \<noteq> []"
    using failed_adapters_member [OF r] by (auto simp: all_errors_def)
  have calls: "rpcs (snd (runScan env cfg initial_world)) =
             [status_request (ScanID cfg) RUNNING [],
              CreateFindingsRPC (ScanID cfg) (succeeded_findings ?rs),
              count_request (ScanID cfg) (word_of_nat (length (succeeded_findings ?rs))),
              status_request (ScanID cfg) FAILED ?msg]"
    using runScan_reached(3) [OF assms(1) scs] errs found by (simp add: upload_calls_def)
  have named: "\<forall>r. Some r \<in> set ?rs \<and> Error r \<noteq> None \<longrightarrow> sublist (ScannerName r) ?msg"
    using failed_adapter_named by blast
  have ret: "fst (runScan env cfg initial_world) =
             Return (Some (''scan had errors: '' @ format_strings (all_errors env cfg (Suc 0))))"
    using runScan_reached(2) [OF assms(1) scs] errs by simp
  from calls named ret set_succeeded_findings show ?thesis by blast
qed

theorem partial_failure_still_delivers_witness:
  "adapters_reached demo_env demo_cfg \<and>
   (\<exists>r. Some r \<in> set (scan_results demo_env demo_cfg) \<and> Error r \<noteq> None) \<and>
   (\<exists>r. Some r \<in> set (scan_results demo_env demo_cfg) \<and> Error r = None \<and> Findings r \<noteq> []) \<and>
   (\<exists>msg. rpcs (snd (runScan demo_env demo_cfg initial_world)) =
            [status_request (ScanID demo_cfg) RUNNING [],
             CreateFindingsRPC (ScanID demo_cfg) [demo_finding],
             count_request (ScanID demo_cfg) 1,
             status_request (ScanID demo_cfg) FAILED msg] \<and>
          sublist ''semgrep'' msg)"
proof -
  let ?ok = "\<lparr> Findings = [demo_finding], Result_ScanType = SCA, ScannerName = ''trivy'',
               Error = None \<rparr>"
  let ?bad = "\<lparr> Findings = [], Result_ScanType = SAST, ScannerName = ''semgrep'',
      Error = Some ''failed to parse semgrep results: failed to read results: no such file'' \<rparr>"
  have bad: "Some ?bad \<in> set (scan_results demo_env demo_cfg) \<and> Error ?bad \<noteq> None"
    by (simp add: demo_scan_results)
  have ok: "Some ?ok \<in> set (scan_results demo_env demo_cfg) \<and> Error ?ok = None \<and> Findings ?ok \<noteq> []"
    by (simp add: demo_scan_results)
  have h2: "\<exists>r. Some r \<in> set (scan_results demo_env demo_cfg) \<and> Error r \<noteq> None"
    using bad by blast
  have h3: "\<exists>r. Some r \<in> set (scan_results demo_env demo_cfg) \<and> Error r = None \<and> Findings r \<noteq> []"
    using ok by blast
  from partial_failure_still_delivers [OF demo_adapters_reached(1) h2 h3]
  obtain msg where m:
    "rpcs (snd (runScan demo_env demo_cfg initial_world)) =
       [status_request (ScanID demo_cfg) RUNNING [],
        CreateFindingsRPC (ScanID demo_cfg) (succeeded_findings (scan_results demo_env demo_cfg)),
        count_request (ScanID demo_cfg)
          (word_of_nat (length (succeeded_findings (scan_results demo_env demo_cfg)))),
        status_request (ScanID demo_cfg) FAILED msg]"
    "\<forall>r. Some r \<in> set (scan_results demo_env demo_cfg) \<and> Error r \<noteq> None \<longrightarrow>
         sublist (ScannerName r) msg"
    by blast
  from m(2) bad have "sublist ''semgrep'' msg" by fastforce
  moreover from m(1) have "rpcs (snd (runScan demo_env demo_cfg initial_world)) =
            [status_request (ScanID demo_cfg) RUNNING [],
             CreateFindingsRPC (ScanID demo_cfg) [demo_finding],
             count_request (ScanID demo_cfg) 1,
             status_request (ScanID demo_cfg) FAILED msg]"
    by (simp add: demo_succeeded_findings)
  ultimately show ?thesis using demo_adapters_reached(1) h2 h3 by blast
qed


text \<open>
  Claim C1, as stated: when the \<open>CreateFindings\<close> call fails while all adapters
  succeeded, the terminal status is COMPLETED and \<open>runScan\<close> returns nil. In the run
  below the only adapter succeeds with one finding and the call fails; \<open>runScan\<close>
  returns an error and the terminal status reported is FAILED.
\<close>

theorem upload_failure_not_completed:
  "adapters_reached demo_env_upload_fails demo_cfg_sca \<and>
   scan_results demo_env_upload_fails demo_cfg_sca =
     [Some \<lparr> Findings = [demo_finding], Result_ScanType = SCA, ScannerName = ''trivy'',
             Error = None \<rparr>] \<and>
   env_rpc demo_env_upload_fails 1 (CreateFindingsRPC (ScanID demo_cfg_sca) [demo_finding]) =
     Some ''rpc error: code = Unavailable'' \<and>
   fst (runScan demo_env_upload_fails demo_cfg_sca initial_world) =
     Return (Some ''scan had errors: [Failed to upload findings: failed to create findings: rpc error: code = Unavailable]'') \<and>
   status_updates (rpcs (snd (runScan demo_env_upload_fails demo_cfg_sca initial_world))) =
     [RUNNING, FAILED]"
proof -
  have rpc: "env_rpc demo_env_upload_fails 1
               (CreateFindingsRPC (ScanID demo_cfg_sca) [demo_finding]) =
             Some ''rpc error: code = Unavailable''"
    by (simp add: demo_env_upload_fails_def)
  have e: "all_errors demo_env_upload_fails demo_cfg_sca (Suc 0) =
     [''Failed to upload findings: failed to create findings: rpc error: code = Unavailable'']"
    using rpc
    by (simp add: all_errors_def upload_errors_def demo_failed_adapters demo_succeeded_findings)
  have u: "status_updates (upload_calls demo_env_upload_fails demo_cfg_sca) = []"
    by (rule status_updates_upload_calls)
  have r: "fst (runScan demo_env_upload_fails demo_cfg_sca initial_world) =
     Return (Some ''scan had errors: [Failed to upload findings: failed to create findings: rpc error: code = Unavailable]'')"
    using runScan_reached(2) [OF demo_adapters_reached(2)]
    by (simp add: demo_scanners e format_strings_def)
  have s: "status_updates (rpcs (snd (runScan demo_env_upload_fails demo_cfg_sca initial_world))) =
     [RUNNING, FAILED]"
    using runScan_reached(3) [OF demo_adapters_reached(2)]
    by (simp add: demo_scanners e u status_updates_append status_request_def)
  show ?thesis using demo_adapters_reached(2) demo_scan_results(2) rpc r s by blast
qed

text \<open>
  Claim C1, amended. In every run that reaches the adapters, in which all adapters
  succeeded with at least one finding and the \<open>CreateFindings\<close> call (the second call
  of the run) fails, the failure is added to the errors of the scan: the findings
  count is still sent, the terminal status reported is FAILED with an error text that
  names the failed upload, and \<open>runScan\<close> returns an error.
\<close>

theorem upload_failure_fails_job:
  assumes "adapters_reached env cfg"
      and "\<forall>r. Some r \<in> set (scan_results env cfg) \<longrightarrow> Error r = None"
      and "succeeded_findings (scan_results env cfg) \<noteq> []"
      and "env_rpc env (Suc 0)
             (CreateFindingsRPC (ScanID cfg) (succeeded_findings (scan_results env cfg))) = Some err"
  shows "fst (runScan env cfg initial_world) =
           Return (Some (''scan had errors: [Failed to upload findings: failed to create findings: ''
                         @ err @ '']'')) \<and>
         rpcs (snd (runScan env cfg initial_world)) =
           [status_request (ScanID cfg) RUNNING [],
            CreateFindingsRPC (ScanID cfg) (succeeded_findings (scan_results env cfg)),
            count_request (ScanID cfg)
              (word_of_nat (length (succeeded_findings (scan_results env cfg)))),
            status_request (ScanID cfg) FAILED
              (''Scan completed with errors: [Failed to upload findings: failed to create findings: ''
               @ err @ '']'')]"
proof -
  have none: "failed_adapters (scan_results env cfg) = []"
    using assms(2) by (intro failed_adapters_none) blast
  have scs: "initializeScanners env (ScanTypes cfg) \<noteq> []"
    using assms(3) length_scan_results [of env cfg] by auto
  have e: "all_errors env cfg (Suc 0) =
     [''Failed to upload findings: failed to create findings: '' @ err]"
    using assms(3,4) by (simp add: all_errors_def upload_errors_def none)
  show ?thesis
    using runScan_reached(2,3) [OF assms(1) scs] assms(3)
    by (simp add: e upload_calls_def format_strings_def)
qed

theorem upload_failure_fails_job_witness:
  "adapters_reached demo_env_upload_fails demo_cfg_sca \<and>
   scan_results demo_env_upload_fails demo_cfg_sca =
     [Some \<lparr> Findings = [demo_finding], Result_ScanType = SCA, ScannerName = ''trivy'',
             Error = None \<rparr>] \<and>
   succeeded_findings (scan_results demo_env_upload_fails demo_cfg_sca) \<noteq> [] \<and>
   env_rpc demo_env_upload_fails (Suc 0)
     (CreateFindingsRPC (ScanID demo_cfg_sca)
        (succeeded_findings (scan_results demo_env_upload_fails demo_cfg_sca))) =
     Some ''rpc error: code = Unavailable'' \<and>
   rpcs (snd (runScan demo_env_upload_fails demo_cfg_sca initial_world)) =
     [status_request (ScanID demo_cfg_sca) RUNNING [],
      CreateFindingsRPC (ScanID demo_cfg_sca) [demo_finding],
      count_request (ScanID demo_cfg_sca) 1,
      status_request (ScanID demo_cfg_sca) FAILED
        ''Scan completed with errors: [Failed to upload findings: failed to create findings: rpc error: code = Unavailable]'']"
proof -
  have h2: "\<forall>r. Some r \<in> set (scan_results demo_env_upload_fails demo_cfg_sca) \<longrightarrow> Error r = None"
    by (simp add: demo_scan_results)
  have h3: "succeeded_findings (scan_results demo_env_upload_fails demo_cfg_sca) \<noteq> []"
    by (simp add: demo_succeeded_findings)
  have h4: "env_rpc demo_env_upload_fails (Suc 0)
     (CreateFindingsRPC (ScanID demo_cfg_sca)
        (succeeded_findings (scan_results demo_env_upload_fails demo_cfg_sca))) =
     Some ''rpc error: code = Unavailable''"
    by (simp add: demo_env_upload_fails_def)
  from upload_failure_fails_job [OF demo_adapters_reached(2) h2 h3 h4]
  have "rpcs (snd (runScan demo_env_upload_fails demo_cfg_sca initial_world)) =
     [status_request (ScanID demo_cfg_sca) RUNNING [],
      CreateFindingsRPC (ScanID demo_cfg_sca) [demo_finding],
      count_request (ScanID demo_cfg_sca) 1,
      status_request (ScanID demo_cfg_sca) FAILED
        ''Scan completed with errors: [Failed to upload findings: failed to create findings: rpc error: code = Unavailable]'']"
    by (simp add: demo_succeeded_findings)
  then show ?thesis using demo_adapters_reached(2) demo_scan_results(2) h3 h4 by blast
qed

text \<open>
  Claim C7. When the merged finding sequence is empty, delivery is skipped and that is
  not an error: \<open>CreateFindings\<close> called with an empty list issues no call and returns
  nil; a run whose merged findings are empty issues neither a \<open>CreateFindings\<close> call
  nor a findings-count update; and if moreover the adapters were reached, there is at
  least one and none failed, the run reports COMPLETED and returns nil.
\<close>

theorem empty_findings_skip_delivery:
  "CreateFindings env scanID [] w = (None, w) \<and>
   (succeeded_findings (scan_results env cfg) = [] \<longrightarrow>
      (\<forall>r \<in> set (rpcs (snd (runScan env cfg initial_world))).
         \<not> is_CreateFindings r \<and> \<not> is_FindingsCount r)) \<and>
   (succeeded_findings (scan_results env cfg) = [] \<and> adapters_reached env cfg \<and>
    initializeScanners env (ScanTypes cfg) \<noteq> [] \<and>
    (\<forall>r. Some r \<in> set (scan_results env cfg) \<longrightarrow> Error r = None) \<longrightarrow>
      fst (runScan env cfg initial_world) = Return None \<and>
      rpcs (snd (runScan env cfg initial_world)) =
        [status_request (ScanID cfg) RUNNING [], status_request (ScanID cfg) COMPLETED []])"
proof (intro conjI impI)
  show "CreateFindings env scanID [] w = (None, w)"
    by (simp add: CreateFindings_def)
next
  assume empty: "succeeded_findings (scan_results env cfg) = []"
  have st: "\<And>s m. \<not> is_CreateFindings (status_request (ScanID cfg) s m) \<and>
                  \<not> is_FindingsCount (status_request (ScanID cfg) s m)"
    by (simp add: status_request_def)
  have u: "upload_calls env cfg = []" using empty by (simp add: upload_calls_def)
  from runScan_rpcs [of env cfg]
  show "\<forall>r \<in> set (rpcs (snd (runScan env cfg initial_world))).
         \<not> is_CreateFindings r \<and> \<not> is_FindingsCount r"
    unfolding u by (elim disjE exE) (simp_all add: st)
next
  assume a: "succeeded_findings (scan_results env cfg) = [] \<and> adapters_reached env cfg \<and>
    initializeScanners env (ScanTypes cfg) \<noteq> [] \<and>
    (\<forall>r. Some r \<in> set (scan_results env cfg) \<longrightarrow> Error r = None)"
  then have none: "failed_adapters (scan_results env cfg) = []"
    by (intro failed_adapters_none) blast
  have e: "all_errors env cfg (Suc 0) = []"
    using a by (simp add: all_errors_def upload_errors_def none)
  have u: "upload_calls env cfg = []" using a by (simp add: upload_calls_def)
  from a have r: "adapters_reached env cfg" and s: "initializeScanners env (ScanTypes cfg) \<noteq> []"
    by simp_all
  show "fst (runScan env cfg initial_world) = Return None"
    using runScan_reached(2) [OF r s] by (simp add: e)
  show "rpcs (snd (runScan env cfg initial_world)) =
        [status_request (ScanID cfg) RUNNING [], status_request (ScanID cfg) COMPLETED []]"
    using runScan_reached(3) [OF r s] by (simp add: e u)
qed

theorem empty_findings_skip_delivery_witness:
  "succeeded_findings (scan_results demo_env_clean demo_cfg_sca) = [] \<and>
   adapters_reached demo_env_clean demo_cfg_sca \<and>
   initializeScanners demo_env_clean (ScanTypes demo_cfg_sca) \<noteq> [] \<and>
   scan_results demo_env_clean demo_cfg_sca =
     [Some \<lparr> Findings = [], Result_ScanType = SCA, ScannerName = ''trivy'', Error = None \<rparr>] \<and>
   CreateFindings demo_env_clean (ScanID demo_cfg_sca) [] initial_world = (None, initial_world) \<and>
   fst (runScan demo_env_clean demo_cfg_sca initial_world) = Return None \<and>
   rpcs (snd (runScan demo_env_clean demo_cfg_sca initial_world)) =
     [status_request (ScanID demo_cfg_sca) RUNNING [],
      status_request (ScanID demo_cfg_sca) COMPLETED []]"
proof -
  have h1: "succeeded_findings (scan_results demo_env_clean demo_cfg_sca) = []"
    by (simp add: demo_succeeded_findings)
  have h3: "initializeScanners demo_env_clean (ScanTypes demo_cfg_sca) \<noteq> []"
    by (simp add: demo_scanners)
  have h4: "\<forall>r. Some r \<in> set (scan_results demo_env_clean demo_cfg_sca) \<longrightarrow> Error r = None"
    by (simp add: demo_scan_results)
  from empty_findings_skip_delivery
         [where env = demo_env_clean and cfg = demo_cfg_sca and w = initial_world
            and scanID = "ScanID demo_cfg_sca"]
    h1 demo_adapters_reached(3) h3 h4 demo_scan_results(3)
  show ?thesis by blast
qed

end
